theory Spec2Isabelle
  imports Complex_Main
begin

section \<open>Single-precision arithmetic\<close>

text \<open>
  The boxes that \<open>supervision\<close> builds from the detector's output are \<open>float32\<close> arrays,
  and numpy computes with them in \<open>float32\<close>: every sum, difference, product, quotient
  and square root is the exact result rounded to the nearest binary32 number, ties to
  the even significand. A finite binary32 number is a real, and an operation of the
  program is the exact operation on reals followed by \<open>float32\<close>.

  \<open>binade x\<close> is the exponent of the binary32 numbers around \<open>x\<close> (not below \<open>-126\<close>,
  where the subnormal numbers begin), and these numbers are \<open>2 powi (binade x - 23)\<close>
  apart. Pixel coordinates and their squares are far below the largest binary32 number,
  so overflow to infinity is left out. The one non-finite value the program produces on
  such inputs, the NaN of the mean of an empty array, is modelled where it arises (see
  \<open>mean_axis0\<close>).
\<close>

definition round_half_even :: "real \<Rightarrow> int" where
  "round_half_even y =
     (let f = \<lfloor>y\<rfloor>; r = y - of_int f
      in if r < 1 / 2 then f else if 1 / 2 < r then f + 1 else if even f then f else f + 1)"

definition binade :: "real \<Rightarrow> int" where
  "binade x = (if x = 0 then - 126 else max (- 126) \<lfloor>log 2 \<bar>x\<bar>\<rfloor>)"

definition float32 :: "real \<Rightarrow> real" where
  "float32 x =
     of_int (round_half_even (x / 2 powi (binade x - 23))) * 2 powi (binade x - 23)"

section \<open>Detections and anchor points\<close>

text \<open>
  The pipeline works on \<open>supervision.Detections\<close>, a structure of parallel arrays
  (boxes, class ids, confidences, tracker ids). It is modelled as a list of records, one
  per detection, in array order.
\<close>

type_synonym point = "real \<times> real"

type_synonym box = "real \<times> real \<times> real \<times> real"

record detection =
  xyxy :: box
  class_id :: nat
  confidence :: real
  tracker_id :: "int option"

text \<open>Class ids, \<open>utils/detectors.py\<close>.\<close>

definition BALL_ID :: nat where
  "BALL_ID = 0"

definition GOALKEEPER_ID :: nat where
  "GOALKEEPER_ID = 1"

definition PLAYER_ID :: nat where
  "PLAYER_ID = 2"

definition REFEREE_ID :: nat where
  "REFEREE_ID = 3"

text \<open>\<open>get_anchors_coordinates(sv.Position.CENTER)\<close> for one box.\<close>

fun center :: "box \<Rightarrow> point" where
  "center (x1, y1, x2, y2) = (float32 (float32 (x1 + x2) / 2), float32 (float32 (y1 + y2) / 2))"

text \<open>\<open>get_anchors_coordinates(sv.Position.BOTTOM_CENTER)\<close> for one box.\<close>

fun bottom_center :: "box \<Rightarrow> point" where
  "bottom_center (x1, y1, x2, y2) = (float32 (float32 (x1 + x2) / 2), y2)"

text \<open>The difference of two \<open>float32\<close> points.\<close>

fun vsub :: "point \<Rightarrow> point \<Rightarrow> point" where
  "vsub (a, b) (c, d) = (float32 (a - c), float32 (b - d))"

text \<open>
  \<open>np.linalg.norm\<close> of a \<open>float32\<close> vector of two coordinates, be it a row of an array
  (\<open>axis=1\<close>, in \<open>BallTracker.update\<close>) or a single vector (in
  \<open>resolve_goalkeepers_team_id\<close>, where the sum of squares is \<open>x.dot(x)\<close>): the squares,
  their sum and the square root, each rounded.
\<close>

fun linalg_norm :: "point \<Rightarrow> real" where
  "linalg_norm (a, b) = float32 (sqrt (float32 (float32 (a * a) + float32 (b * b))))"

text \<open>
  \<open>np.argmin\<close>: the first index of the least element. On an empty array numpy
  raises; the only caller below guards against it, the value \<open>0\<close> there is never read.
\<close>

fun argmin :: "real list \<Rightarrow> nat" where
  "argmin [] = 0"
| "argmin [x] = 0"
| "argmin (x # y # ys) =
     (let i = argmin (y # ys) in if x \<le> (y # ys) ! i then 0 else Suc i)"

section \<open>The ball tracker (\<open>utils/trackers.py\<close>)\<close>

text \<open>
  \<open>collections.deque(maxlen=n).append(x)\<close>: the element is added on the right, and
  when the length then exceeds \<open>n\<close> the leftmost element is dropped.
\<close>

definition deque_append :: "nat \<Rightarrow> 'a list \<Rightarrow> 'a \<Rightarrow> 'a list" where
  "deque_append n q x = (let q' = q @ [x] in if length q' > n then tl q' else q')"

record ball_tracker =
  buffer :: "point list"
  maxlen :: nat
  last_position :: "point option"

text \<open>\<open>BallTracker.__init__\<close>.\<close>

definition BallTracker :: "nat \<Rightarrow> ball_tracker" where
  "BallTracker buffer_size = \<lparr>buffer = [], maxlen = buffer_size, last_position = None\<rparr>"

text \<open>\<open>BallTracker.reset\<close>.\<close>

definition reset :: "ball_tracker \<Rightarrow> ball_tracker" where
  "reset bt = bt\<lparr>buffer := [], last_position := None\<rparr>"

text \<open>
  \<open>BallTracker.update\<close>: the returned position (\<open>None\<close> for Python's \<open>None\<close>) and the
  tracker after the call.
\<close>

definition update :: "ball_tracker \<Rightarrow> detection list \<Rightarrow> point option \<times> ball_tracker" where
  "update bt detections =
     (if length detections = 0 then (None, bt)
      else
        let xy = map (\<lambda>d. center (xyxy d)) detections;
            pos = (case last_position bt of
                     None \<Rightarrow> xy ! 0
                   | Some lp \<Rightarrow>
                       let distances = map (\<lambda>p. linalg_norm (vsub p lp)) xy;
                           index = argmin distances
                       in xy ! index)
        in (Some pos,
            bt\<lparr>buffer := deque_append (maxlen bt) (buffer bt) pos,
               last_position := Some pos\<rparr>))"

text \<open>A run of \<open>update\<close> calls, one per frame, keeping the tracker.\<close>

fun updates :: "ball_tracker \<Rightarrow> detection list list \<Rightarrow> ball_tracker" where
  "updates bt [] = bt"
| "updates bt (f # fs) = updates (snd (update bt f)) fs"

section \<open>Goalkeeper resolution (\<open>utils/processor.py\<close>)\<close>

text \<open>The \<open>float32\<close> sum of a column, added up from the first entry on.\<close>

fun float_sum :: "real list \<Rightarrow> real" where
  "float_sum [] = 0"
| "float_sum (x # xs) = foldl (\<lambda>a b. float32 (a + b)) x xs"

text \<open>
  \<open>a.mean(axis=0)\<close> of a \<open>float32\<close> array of \<open>n\<close> points: the sum of each column divided
  by \<open>n\<close>. For \<open>n = 0\<close> numpy does not raise: it warns and returns \<open>array([nan, nan])\<close>,
  which \<open>None\<close> stands for.
\<close>

definition mean_axis0 :: "point list \<Rightarrow> point option" where
  "mean_axis0 ps =
     (if ps = [] then None
      else Some (float32 (float_sum (map fst ps) / real (length ps)),
                 float32 (float_sum (map snd ps) / real (length ps))))"

text \<open>
  \<open>np.linalg.norm(goalkeeper_xy - centroid)\<close>: NaN (\<open>None\<close>) when the centroid is NaN.
\<close>

fun norm_to :: "point \<Rightarrow> point option \<Rightarrow> real option" where
  "norm_to g None = None"
| "norm_to g (Some c) = Some (linalg_norm (vsub g c))"

text \<open>Floating-point \<open><\<close>: false whenever an operand is NaN.\<close>

fun float_less :: "real option \<Rightarrow> real option \<Rightarrow> bool" where
  "float_less (Some a) (Some b) = (a < b)"
| "float_less _ _ = False"

text \<open>\<open>players_xy[players.class_id == t].mean(axis=0)\<close>.\<close>

definition team_centroid :: "detection list \<Rightarrow> nat \<Rightarrow> point option" where
  "team_centroid players t =
     mean_axis0 (map (\<lambda>d. bottom_center (xyxy d)) (filter (\<lambda>d. class_id d = t) players))"

definition resolve_goalkeepers_team_id :: "detection list \<Rightarrow> detection list \<Rightarrow> nat list" where
  "resolve_goalkeepers_team_id players goalkeepers =
     (let goalkeepers_xy = map (\<lambda>d. bottom_center (xyxy d)) goalkeepers;
          team_0_centroid = team_centroid players 0;
          team_1_centroid = team_centroid players 1
      in map (\<lambda>goalkeeper_xy.
                let dist_0 = norm_to goalkeeper_xy team_0_centroid;
                    dist_1 = norm_to goalkeeper_xy team_1_centroid
                in if float_less dist_0 dist_1 then 0 else 1)
             goalkeepers_xy)"

section \<open>Collaborators\<close>

text \<open>
  The detection models, the object tracker (\<open>sv.ByteTrack\<close>), non-maximum suppression
  and the team classifier (\<open>sports.common.team.TeamClassifier\<close>) are libraries outside
  the repository. They are parameters of the model. A call that can raise returns
  \<open>Inl\<close> of the exception. A frame is a value of the type \<open>'f\<close>, the tracker's state of
  \<open>'ts\<close>, a fitted classifier of \<open>'c\<close>; a crop (\<open>sv.crop_image(frame, xyxy)\<close>) is the
  pair of the frame and the box.
\<close>

datatype error = Exception string

type_synonym 'f crop = "'f \<times> box"

record ('f, 'ts, 'c) collaborators =
  get_detections :: "'f \<Rightarrow> error + detection list"
  with_nms :: "real \<Rightarrow> bool \<Rightarrow> detection list \<Rightarrow> error + detection list"
  new_tracker :: "'ts"
  update_with_detections :: "'ts \<Rightarrow> detection list \<Rightarrow> detection list \<times> 'ts"
  ball_yolo :: "('f \<Rightarrow> error + detection list) option"
  fit :: "'f crop list \<Rightarrow> error + 'c"
  predict :: "'c \<Rightarrow> 'f crop list \<Rightarrow> error + nat list"

text \<open>
  Modelled from the spec: the fit of the team classifier (\<open>TeamClassifier.fit\<close> of the
  \<open>sports\<close> package, which is not among the repository's files). Section 4.3: given a
  sample of player crops it produces a trained classifier, and "fitting with zero crops
  must fail explicitly rather than silently produce an unusable classifier"; section 7
  names the failure TrainingDataInsufficient. \<open>train\<close> is the external clustering on a
  non-empty sample.
\<close>

definition fit_spec :: "('f crop list \<Rightarrow> 'c) \<Rightarrow> 'f crop list \<Rightarrow> error + 'c" where
  "fit_spec train crops =
     (if crops = [] then Inl (Exception ''TrainingDataInsufficient'') else Inr (train crops))"

text \<open>
  \<open>sv.get_video_frames_generator(path, stride=n)\<close> over the frames of a video: the
  first frame, then \<open>n - 1\<close> frames are skipped, and so on.
\<close>

function every_nth :: "nat \<Rightarrow> 'a list \<Rightarrow> 'a list" where
  "every_nth n [] = []"
| "every_nth n (x # xs) = x # every_nth n (drop (n - 1) xs)"
  by pat_completeness auto
termination
  by (relation "measure (\<lambda>(n, xs). length xs)") auto

section \<open>Training the team classifier (\<open>create_team_classifier\<close>)\<close>

text \<open>
  The loop over the sampled frames, with the crops collected so far. \<open>max_crops\<close> is a
  Python integer.
\<close>

fun collect_crops ::
  "('f, 'ts, 'c) collaborators \<Rightarrow> int \<Rightarrow> 'f list \<Rightarrow> 'f crop list \<Rightarrow> error + 'f crop list"
where
  "collect_crops C max_crops [] crops = Inr crops"
| "collect_crops C max_crops (frame # rest) crops =
     (case get_detections C frame of
        Inl e \<Rightarrow> Inl e
      | Inr detections \<Rightarrow>
          (case with_nms C (1 / 2) True detections of
             Inl e \<Rightarrow> Inl e
           | Inr detections \<Rightarrow>
               let players = filter (\<lambda>d. class_id d = PLAYER_ID) detections;
                   crops = crops @ map (\<lambda>d. (frame, xyxy d)) players
               in if int (length crops) \<ge> max_crops then Inr crops
                  else collect_crops C max_crops rest crops))"

definition create_team_classifier ::
  "('f, 'ts, 'c) collaborators \<Rightarrow> 'f list \<Rightarrow> nat \<Rightarrow> int \<Rightarrow> error + 'c"
where
  "create_team_classifier C video stride max_crops =
     (case collect_crops C max_crops (every_nth stride video) [] of
        Inl e \<Rightarrow> Inl e
      | Inr crops \<Rightarrow> fit C crops)"

section \<open>The frame pipeline (\<open>process_video\<close>)\<close>

record statistics =
  frames_procesados :: nat
  jugadores_equipo_0 :: nat
  jugadores_equipo_1 :: nat
  porteros_detectados :: nat
  arbitros_detectados :: nat
  detecciones_balon :: nat
  total_detecciones :: nat

text \<open>
  What \<open>sink.write_frame\<close> receives: the frame as read, or the frame with the data the
  annotators draw (the two teams, the referees, the ball position and its trail).
\<close>

datatype 'f written =
  Raw 'f
| Annotated 'f "detection list" "detection list" "detection list" "point option" "point list"

text \<open>
  The calls a frame makes, in the order the code makes them, with their arguments: the
  general detector, the object tracker, the ball detection, the ball tracker, the team
  classifier, the goalkeeper resolution, the video sink.
\<close>

datatype 'f stage =
  Detect
| TrackNonBall "detection list"
| DetectBall
| TrackBall "detection list"
| ClassifyPlayers "'f crop list"
| ResolveGoalkeepers "detection list" "detection list"
| Emit "'f written"

record 'ts pipeline =
  tracker :: 'ts
  ball_tracker :: ball_tracker
  stats :: statistics

text \<open>\<open>sv.pad_boxes(xyxy, px)\<close> for one box.\<close>

fun pad_boxes :: "real \<Rightarrow> box \<Rightarrow> box" where
  "pad_boxes px (x1, y1, x2, y2) =
     (float32 (x1 - px), float32 (y1 - px), float32 (x2 + px), float32 (y2 + px))"

text \<open>
  Lines 210 to 221: the ball candidates of a frame, given the frame's detections as they
  come back from the object tracker. The bare \<open>except\<close> catches whatever the ball model
  or its non-maximum suppression raises.
\<close>

definition detect_ball ::
  "('f, 'ts, 'c) collaborators \<Rightarrow> 'f \<Rightarrow> detection list \<Rightarrow> detection list"
where
  "detect_ball C frame detections =
     (case ball_yolo C of
        Some ball_predict \<Rightarrow>
          (case ball_predict frame of
             Inr ball_detections \<Rightarrow>
               if length ball_detections > 0 then
                 (case with_nms C (1 / 10) False ball_detections of
                    Inr ball_detections \<Rightarrow> ball_detections
                  | Inl e \<Rightarrow> filter (\<lambda>d. class_id d = BALL_ID) detections)
               else ball_detections
           | Inl e \<Rightarrow> filter (\<lambda>d. class_id d = BALL_ID) detections)
      | None \<Rightarrow>
          let ball_detections = filter (\<lambda>d. class_id d = BALL_ID) detections
          in if length ball_detections > 0
             then map (\<lambda>d. d\<lparr>xyxy := pad_boxes 10 (xyxy d)\<rparr>) ball_detections
             else ball_detections)"

text \<open>
  \<open>players[players_team_id == t]\<close>, evaluated only when the mask has a true entry;
  numpy raises \<open>IndexError\<close> when the mask and the array differ in length.
\<close>

definition select_team :: "detection list \<Rightarrow> nat list \<Rightarrow> nat \<Rightarrow> error + detection list" where
  "select_team players players_team_id t =
     (if t \<in> set players_team_id then
        if length players_team_id = length players
        then Inr (map fst (filter (\<lambda>(d, i). i = t) (zip players players_team_id)))
        else Inl (Exception ''IndexError'')
      else Inr [])"

text \<open>Lines 236 to 252: the players of each team and the updated counters.\<close>

definition classify_players ::
  "('f, 'ts, 'c) collaborators \<Rightarrow> 'c \<Rightarrow> 'f \<Rightarrow> detection list \<Rightarrow> statistics \<Rightarrow>
     error + (detection list \<times> detection list \<times> statistics)"
where
  "classify_players C team_classifier frame players st =
     (if length players > 0 then
        (case predict C team_classifier (map (\<lambda>d. (frame, xyxy d)) players) of
           Inl e \<Rightarrow> Inl e
         | Inr players_team_id \<Rightarrow>
             let st = st\<lparr>jugadores_equipo_0 :=
                          jugadores_equipo_0 st + length (filter (\<lambda>i. i = 0) players_team_id),
                        jugadores_equipo_1 :=
                          jugadores_equipo_1 st + length (filter (\<lambda>i. i = 1) players_team_id)\<rparr>
             in (case select_team players players_team_id 0 of
                   Inl e \<Rightarrow> Inl e
                 | Inr players_team0 \<Rightarrow>
                     (case select_team players players_team_id 1 of
                        Inl e \<Rightarrow> Inl e
                      | Inr players_team1 \<Rightarrow> Inr (players_team0, players_team1, st))))
      else Inr ([], [], st))"

text \<open>
  Lines 255 to 273: the teams with their goalkeepers. The players' class ids are
  overwritten by their team for the resolution.
\<close>

definition assign_goalkeepers ::
  "detection list \<Rightarrow> detection list \<Rightarrow> detection list \<Rightarrow> detection list \<Rightarrow>
     detection list \<times> detection list"
where
  "assign_goalkeepers players goalkeepers players_team0 players_team1 =
     (if length goalkeepers > 0 \<and> length players > 0 then
        let players_team0 = map (\<lambda>d. d\<lparr>class_id := 0\<rparr>) players_team0;
            players_team1 = map (\<lambda>d. d\<lparr>class_id := 1\<rparr>) players_team1;
            merged_players = players_team0 @ players_team1;
            goalkeepers_team_id = resolve_goalkeepers_team_id merged_players goalkeepers
        in (players_team0
              @ map fst (filter (\<lambda>(g, t). t = 0) (zip goalkeepers goalkeepers_team_id)),
            players_team1
              @ map fst (filter (\<lambda>(g, t). t = 1) (zip goalkeepers goalkeepers_team_id)))
      else (players_team0, players_team1))"

text \<open>
  The body of the loop over the frames (lines 191 to 313): the pipeline after the frame
  and the calls made. The progress callback and the drawing are left out; the data drawn
  is kept in \<open>Annotated\<close>.
\<close>

definition process_frame ::
  "('f, 'ts, 'c) collaborators \<Rightarrow> 'c \<Rightarrow> 'ts pipeline \<Rightarrow> 'f \<Rightarrow>
     error + ('ts pipeline \<times> 'f stage list)"
where
  "process_frame C team_classifier s frame =
     (let st = (stats s)\<lparr>frames_procesados := frames_procesados (stats s) + 1\<rparr>
      in case get_detections C frame of
           Inl e \<Rightarrow> Inl e
         | Inr detections \<Rightarrow>
             if length detections = 0 then
               Inr (s\<lparr>stats := st\<rparr>, [Detect, Emit (Raw frame)])
             else
               let st = st\<lparr>total_detecciones := total_detecciones st + length detections\<rparr>;
                   tracker_input = detections;
                   (detections, ts) = update_with_detections C (tracker s) tracker_input;
                   ball_detections = detect_ball C frame detections;
                   (ball_position, bt) = update (ball_tracker s) ball_detections;
                   st = (if ball_position \<noteq> None
                         then st\<lparr>detecciones_balon := detecciones_balon st + 1\<rparr> else st);
                   goalkeepers = filter (\<lambda>d. class_id d = GOALKEEPER_ID) detections;
                   players = filter (\<lambda>d. class_id d = PLAYER_ID) detections;
                   referees = filter (\<lambda>d. class_id d = REFEREE_ID) detections;
                   st = st\<lparr>porteros_detectados := porteros_detectados st + length goalkeepers,
                           arbitros_detectados := arbitros_detectados st + length referees\<rparr>
               in case classify_players C team_classifier frame players st of
                    Inl e \<Rightarrow> Inl e
                  | Inr (players_team0, players_team1, st) \<Rightarrow>
                      let (team0, team1) =
                            assign_goalkeepers players goalkeepers players_team0 players_team1
                      in Inr (\<lparr>tracker = ts, ball_tracker = bt, stats = st\<rparr>,
                              [Detect, TrackNonBall tracker_input, DetectBall,
                               TrackBall ball_detections]
                              @ (if length players > 0
                                 then [ClassifyPlayers (map (\<lambda>d. (frame, xyxy d)) players)]
                                 else [])
                              @ (if length goalkeepers > 0 \<and> length players > 0
                                 then [ResolveGoalkeepers
                                         (map (\<lambda>d. d\<lparr>class_id := 0\<rparr>) players_team0
                                            @ map (\<lambda>d. d\<lparr>class_id := 1\<rparr>) players_team1)
                                         goalkeepers]
                                 else [])
                              @ [Emit (Annotated frame team0 team1 referees ball_position
                                         (buffer bt))]))"

text \<open>The loop: an exception ends the run.\<close>

fun process_frames ::
  "('f, 'ts, 'c) collaborators \<Rightarrow> 'c \<Rightarrow> 'ts pipeline \<Rightarrow> 'f list \<Rightarrow>
     error + ('ts pipeline \<times> 'f stage list list)"
where
  "process_frames C team_classifier s [] = Inr (s, [])"
| "process_frames C team_classifier s (frame # rest) =
     (case process_frame C team_classifier s frame of
        Inl e \<Rightarrow> Inl e
      | Inr (s', calls) \<Rightarrow>
          (case process_frames C team_classifier s' rest of
             Inl e \<Rightarrow> Inl e
           | Inr (s'', calls_log) \<Rightarrow> Inr (s'', calls # calls_log)))"

text \<open>
  \<open>sv.get_video_frames_generator(path, start=start, end=end)\<close> with the stride 1: the
  frames from \<open>start\<close> up to \<open>end\<close>, or up to the last one when \<open>end\<close> is \<open>None\<close>. An
  \<open>end\<close> beyond the number of frames raises.
\<close>

definition video_frames :: "'f list \<Rightarrow> nat \<Rightarrow> nat option \<Rightarrow> error + 'f list" where
  "video_frames video start end_frame =
     (case end_frame of
        None \<Rightarrow> Inr (drop start video)
      | Some e \<Rightarrow>
          if e > length video then Inl (Exception ''Requested frames are outbound'')
          else Inr (drop start (take e video)))"

text \<open>
  \<open>process_video\<close>: the statistics returned and, per frame, the calls made. The frames
  are those from \<open>start_frame\<close> on, \<open>max_frames\<close> of them when \<open>max_frames\<close> is given and
  not zero.
\<close>

definition process_video ::
  "('f, 'ts, 'c) collaborators \<Rightarrow> 'c \<Rightarrow> 'f list \<Rightarrow> nat \<Rightarrow> nat option \<Rightarrow>
     error + (statistics \<times> 'f stage list list)"
where
  "process_video C team_classifier video start_frame max_frames =
     (let s = \<lparr>tracker = new_tracker C,
               ball_tracker = reset (BallTracker 30),
               stats = \<lparr>frames_procesados = 0, jugadores_equipo_0 = 0, jugadores_equipo_1 = 0,
                        porteros_detectados = 0, arbitros_detectados = 0,
                        detecciones_balon = 0, total_detecciones = 0\<rparr>\<rparr>;
          end_frame = (case max_frames of
                   None \<Rightarrow> None
                 | Some n \<Rightarrow> if n \<noteq> 0 then Some (start_frame + n) else None)
      in case video_frames video start_frame end_frame of
           Inl e \<Rightarrow> Inl e
         | Inr frames \<Rightarrow>
             (case process_frames C team_classifier s frames of
                Inl e \<Rightarrow> Inl e
              | Inr (s', calls_log) \<Rightarrow> Inr (stats s', calls_log)))"

text \<open>
  The analysis of \<open>app.py\<close> (lines 215 to 305), for the start frame and the number of
  frames it has computed. A start frame at or beyond the end of the video is reported and
  nothing is done. Otherwise the classifier is trained, outside any \<open>try\<close>: an exception
  there leaves \<open>main\<close> (\<open>Inl\<close>). Then the video is processed inside \<open>try\<close>: an exception
  there is caught and shown.
\<close>

datatype 'f outcome =
  StartBeyondVideo
| ProcessingFailed error
| Completed statistics "'f stage list list"

definition analysis ::
  "('f, 'ts, 'c) collaborators \<Rightarrow> 'f list \<Rightarrow> nat \<Rightarrow> nat option \<Rightarrow> error + 'f outcome"
where
  "analysis C video start_frame max_frames =
     (if start_frame \<ge> length video then Inr StartBeyondVideo
      else
        case create_team_classifier C video 30 500 of
          Inl e \<Rightarrow> Inl e
        | Inr team_classifier \<Rightarrow>
            (case process_video C team_classifier video start_frame max_frames of
               Inl e \<Rightarrow> Inr (ProcessingFailed e)
             | Inr (st, calls_log) \<Rightarrow> Inr (Completed st calls_log)))"

section \<open>Example inputs\<close>

text \<open>
  Concrete inputs for evaluating the pipeline: frames are numbered, the object tracker
  gives every detection it receives the track id 7 and drops none, non-maximum
  suppression keeps everything, fitting is \<open>fit_spec\<close> and prediction labels every
  crop 0. The general detector returns \<open>ds\<close> on every frame; \<open>ball\<close> is the
  ball model, if any.
\<close>

definition example_ball :: detection where
  "example_ball = \<lparr>xyxy = (40, 40, 50, 50), class_id = 0, confidence = 0.9, tracker_id = None\<rparr>"

definition example_player :: detection where
  "example_player = \<lparr>xyxy = (0, 0, 20, 40), class_id = 2, confidence = 0.8, tracker_id = None\<rparr>"

definition example_player' :: detection where
  "example_player' = \<lparr>xyxy = (50, 0, 70, 40), class_id = 2, confidence = 0.7, tracker_id = None\<rparr>"

definition example_referee :: detection where
  "example_referee = \<lparr>xyxy = (80, 0, 100, 40), class_id = 3, confidence = 0.6, tracker_id = None\<rparr>"

definition example_goalkeeper :: detection where
  "example_goalkeeper = \<lparr>xyxy = (0, 0, 20, 40), class_id = 1, confidence = 0.5, tracker_id = None\<rparr>"

definition example_collaborators ::
  "detection list \<Rightarrow> (nat \<Rightarrow> error + detection list) option \<Rightarrow> (nat, unit, unit) collaborators"
where
  "example_collaborators ds ball =
     \<lparr>get_detections = (\<lambda>f. Inr ds),
      with_nms = (\<lambda>threshold class_agnostic detections. Inr detections),
      new_tracker = (),
      update_with_detections =
        (\<lambda>ts detections. (map (\<lambda>d. d\<lparr>tracker_id := Some 7\<rparr>) detections, ts)),
      ball_yolo = ball,
      fit = fit_spec (\<lambda>crops. ()),
      predict = (\<lambda>c crops. Inr (map (\<lambda>x. 0) crops))\<rparr>"

definition example_start :: "unit pipeline" where
  "example_start =
     \<lparr>tracker = (), ball_tracker = reset (BallTracker 30),
      stats = \<lparr>frames_procesados = 0, jugadores_equipo_0 = 0, jugadores_equipo_1 = 0,
               porteros_detectados = 0, arbitros_detectados = 0,
               detecciones_balon = 0, total_detecciones = 0\<rparr>\<rparr>"

section \<open>Properties of single-precision arithmetic\<close>

lemma round_half_even_of_int [simp]: "round_half_even (of_int n) = n"
  by (simp add: round_half_even_def)

lemma round_half_even_eqI:
  "of_int n - 1 / 2 < y \<Longrightarrow> y < of_int n + 1 / 2 \<Longrightarrow> round_half_even y = n"
proof -
  assume a: "of_int n - 1 / 2 < y" and b: "y < of_int n + 1 / 2"
  show ?thesis
  proof (cases "of_int n \<le> y")
    case True
    then have "\<lfloor>y\<rfloor> = n" using b by (simp add: floor_eq_iff)
    then show ?thesis using b by (simp add: round_half_even_def Let_def)
  next
    case False
    then have f: "\<lfloor>y\<rfloor> = n - 1" using a by (simp add: floor_eq_iff)
    then show ?thesis using a False by (simp add: round_half_even_def Let_def)
  qed
qed

lemma binade_eqI:
  assumes "2 powi k \<le> \<bar>x\<bar>" and "\<bar>x\<bar> < 2 powi (k + 1)" and "- 126 \<le> k"
  shows "binade x = k"
proof -
  have pos: "0 < \<bar>x\<bar>" using assms(1) by (smt (verit) zero_less_power_int)
  have "\<lfloor>log 2 \<bar>x\<bar>\<rfloor> = k"
    using assms(1,2) pos
    by (simp add: floor_log_eq_powr_iff powr_real_of_int' del: of_int_add)
  then show ?thesis using assms(3) pos by (simp add: binade_def)
qed

lemma binade_small:
  assumes "\<bar>x\<bar> < 2 powi (- 126)"
  shows "binade x = - 126"
proof (cases "x = 0")
  case True
  then show ?thesis by (simp add: binade_def)
next
  case False
  then have pos: "0 < \<bar>x\<bar>" by simp
  have "log 2 \<bar>x\<bar> < - 126"
    using assms pos log_less_iff [of 2 "\<bar>x\<bar>" "- 126"]
    by (simp add: powr_neg_numeral)
  then have "\<lfloor>log 2 \<bar>x\<bar>\<rfloor> \<le> - 126" by linarith
  then show ?thesis by (simp add: binade_def)
qed

lemma float32_binade:
  "binade x = k \<Longrightarrow>
   float32 x = of_int (round_half_even (x / 2 powi (k - 23))) * 2 powi (k - 23)"
  by (simp add: float32_def)

lemma float32_0 [simp]: "float32 0 = 0"
  using round_half_even_of_int [of 0] by (simp add: float32_def)

lemma binade_lower: "x \<noteq> 0 \<Longrightarrow> - 126 < binade x \<Longrightarrow> 2 powi (binade x) \<le> \<bar>x\<bar>"
proof -
  assume x: "x \<noteq> 0" and b: "- 126 < binade x"
  then have e: "binade x = \<lfloor>log 2 \<bar>x\<bar>\<rfloor>" by (auto simp: binade_def max_def split: if_splits)
  have "2 powr (of_int \<lfloor>log 2 \<bar>x\<bar>\<rfloor>) \<le> \<bar>x\<bar>"
    using x floor_log_eq_powr_iff [of "\<bar>x\<bar>" 2 "\<lfloor>log 2 \<bar>x\<bar>\<rfloor>"] by simp
  then show ?thesis using e by (simp add: powr_real_of_int')
qed

lemma binade_ge: "- 126 \<le> binade x"
  by (simp add: binade_def)

lemma float32_exact:
  assumes "x / 2 powi (binade x - 23) \<in> \<int>"
  shows "float32 x = x"
proof -
  from assms obtain n :: int where n: "x / 2 powi (binade x - 23) = of_int n"
    by (auto elim: Ints_cases)
  have "float32 x = of_int n * 2 powi (binade x - 23)"
    by (simp add: float32_def n)
  also have "\<dots> = x" using n by (simp add: field_simps)
  finally show ?thesis .
qed

lemma float32_dyadic:
  assumes "x * 2 ^ j \<in> \<int>" and "\<bar>x\<bar> * 2 ^ j \<le> 2 ^ 24" and "j \<le> 149"
  shows "float32 x = x"
proof (cases "x = 0")
  case True
  then show ?thesis by simp
next
  case False
  from assms(1) obtain m :: int where m: "x * 2 ^ j = of_int m" by (auto elim: Ints_cases)
  have xm: "x = of_int m * 2 powi (- int j)"
    using m by (simp add: power_int_minus field_simps)
  let ?e = "binade x"
  have div: "x / 2 powi (?e - 23) = of_int m * 2 powi (23 - ?e - int j)"
    unfolding xm by (simp add: power_int_diff power_int_minus field_simps power_int_add)
  have ax: "\<bar>x\<bar> * 2 ^ j = \<bar>real_of_int m\<bar>"
  proof -
    have "\<bar>x * 2 ^ j\<bar> = \<bar>x\<bar> * 2 ^ j" by (simp add: abs_mult)
    then show ?thesis using m by simp
  qed
  show ?thesis
  proof (cases "?e + int j \<le> 23")
    case True
    then have "2 powi (23 - ?e - int j) = (2::real) ^ nat (23 - ?e - int j)"
      by (simp add: power_int_def)
    then have "x / 2 powi (?e - 23) = of_int (m * 2 ^ nat (23 - ?e - int j))"
      using div by simp
    then have "x / 2 powi (?e - 23) \<in> \<int>" by (metis Ints_of_int)
    then show ?thesis by (rule float32_exact)
  next
    case False
    then have big: "24 \<le> ?e + int j" by simp
    with assms(3) have e: "- 126 < ?e" by simp
    have "2 powi ?e \<le> \<bar>x\<bar>" using binade_lower [OF \<open>x \<noteq> 0\<close> e] .
    then have sc: "2 powi ?e * 2 ^ j \<le> \<bar>x\<bar> * 2 ^ j" by simp
    have feq: "(2::real) powi (?e + int j) = 2 powi ?e * 2 ^ j" by (simp add: power_int_add)
    with sc assms(2) have le: "(2::real) powi (?e + int j) \<le> 2 ^ 24" by linarith
    have "?e + int j \<le> 24"
    proof (rule ccontr)
      assume "\<not> ?e + int j \<le> 24"
      then have "(2::real) powi 24 < 2 powi (?e + int j)"
        by (intro power_int_strict_increasing) simp_all
      with le show False by simp
    qed
    with big have eq: "?e + int j = 24" by simp
    have p24: "(2::real) powi (?e + int j) = 2 ^ 24" using eq by simp
    have p: "(2::real) ^ 24 \<le> \<bar>x\<bar> * 2 ^ j"
      using sc feq p24 by linarith
    from ax p assms(2) have "\<bar>real_of_int m\<bar> = 2 ^ 24" by simp
    then have "\<bar>m\<bar> = 2 ^ 24" by (metis of_int_abs of_int_eq_numeral_power_cancel_iff)
    then have mcase: "m = 2 ^ 24 \<or> m = - (2 ^ 24)" by linarith
    have "23 - ?e - int j = - 1" using eq by simp
    then have "(2::real) powi (23 - ?e - int j) = 1 / 2"
      by (simp only: power_int_minus power_int_1_right) simp
    then have "x / 2 powi (?e - 23) = of_int m / 2"
      using div by simp
    then have h: "x / 2 powi (?e - 23) = of_int m / 2" .
    have "real_of_int m / 2 = of_int (m div 2)" using mcase by auto
    with h have "x / 2 powi (?e - 23) = of_int (m div 2)" by simp
    then have "x / 2 powi (?e - 23) \<in> \<int>" by (metis Ints_of_int)
    then show ?thesis by (rule float32_exact)
  qed
qed

lemma float32_of_int: "\<bar>n\<bar> \<le> 2 ^ 24 \<Longrightarrow> float32 (of_int n) = of_int n"
proof -
  assume n: "\<bar>n\<bar> \<le> 2 ^ 24"
  have "\<bar>real_of_int n\<bar> \<le> 2 ^ 24"
  proof -
    have "real_of_int \<bar>n\<bar> \<le> real_of_int (2 ^ 24)" using n by (simp only: of_int_le_iff)
    then show ?thesis by simp
  qed
  then show ?thesis using float32_dyadic [of "of_int n" 0] by simp
qed

lemma float32_numeral [simp]:
  "numeral w \<le> (16777216::int) \<Longrightarrow> float32 (numeral w) = numeral w"
  using float32_of_int [of "numeral w"] by simp

lemma float32_neg_numeral [simp]:
  "numeral w \<le> (16777216::int) \<Longrightarrow> float32 (- numeral w) = - numeral w"
  using float32_of_int [of "- numeral w"] by simp

lemma float32_1 [simp]: "float32 1 = 1"
  using float32_of_int [of 1] by simp

lemma float32_eqI:
  assumes "2 powi k \<le> \<bar>x\<bar>" and "\<bar>x\<bar> < 2 powi (k + 1)" and "- 126 \<le> k"
    and "of_int n - 1 / 2 < x / 2 powi (k - 23)" and "x / 2 powi (k - 23) < of_int n + 1 / 2"
  shows "float32 x = of_int n * 2 powi (k - 23)"
  using float32_binade [OF binade_eqI [OF assms(1-3)]] round_half_even_eqI [OF assms(4,5)]
  by simp

lemma float32_sqrt_eqI:
  assumes "2 ^ 23 < n" and "n < 2 ^ 24" and "- 126 \<le> k"
    and "((of_int n - 1 / 2) * 2 powi (k - 23))\<^sup>2 < s"
    and "s < ((of_int n + 1 / 2) * 2 powi (k - 23))\<^sup>2"
  shows "float32 (sqrt s) = of_int n * 2 powi (k - 23)"
proof -
  let ?u = "(2::real) powi (k - 23)"
  have u: "0 < ?u" by simp
  have npos: "(0::real) < of_int n - 1 / 2" using assms(1) by simp
  have lo: "(of_int n - 1 / 2) * ?u < sqrt s"
    using assms(4) npos u by (intro real_less_rsqrt) simp
  have "0 \<le> ((of_int n - 1 / 2) * ?u)\<^sup>2" by simp
  with assms(4) have spos: "0 \<le> s" by linarith
  have hi: "sqrt s < (of_int n + 1 / 2) * ?u"
    using assms(5) npos u spos by (intro real_less_lsqrt) simp_all
  have k: "(2::real) powi k = 2 ^ 23 * ?u"
    by (simp add: power_int_diff)
  have k1: "(2::real) powi (k + 1) = 2 ^ 24 * ?u"
    by (simp add: power_int_diff power_int_add)
  have n1: "(2::real) ^ 23 \<le> of_int n - 1 / 2"
  proof -
    have "(2 ^ 23 + 1 :: int) \<le> n" using assms(1) by simp
    then have "real_of_int (2 ^ 23 + 1) \<le> of_int n" by (simp only: of_int_le_iff)
    then show ?thesis by simp
  qed
  have n2: "of_int n + 1 / 2 \<le> (2::real) ^ 24"
  proof -
    have "n + 1 \<le> (2 ^ 24 :: int)" using assms(2) by simp
    then have "real_of_int (n + 1) \<le> real_of_int (2 ^ 24)" by (simp only: of_int_le_iff)
    then show ?thesis by simp
  qed
  have b1: "2 powi k \<le> \<bar>sqrt s\<bar>"
  proof -
    have "2 ^ 23 * ?u \<le> (of_int n - 1 / 2) * ?u" using n1 u by (simp only: mult_le_cancel_right_pos)
    with lo k show ?thesis by linarith
  qed
  have b2: "\<bar>sqrt s\<bar> < 2 powi (k + 1)"
  proof -
    have "(of_int n + 1 / 2) * ?u \<le> 2 ^ 24 * ?u" using n2 u by (simp only: mult_le_cancel_right_pos)
    moreover have "0 \<le> sqrt s" using spos by simp
    ultimately show ?thesis using hi k1 by linarith
  qed
  have d1: "of_int n - 1 / 2 < sqrt s / ?u" using lo u by (simp add: pos_less_divide_eq)
  have d2: "sqrt s / ?u < of_int n + 1 / 2" using hi u by (simp add: pos_divide_less_eq)
  show ?thesis by (rule float32_eqI [OF b1 b2 assms(3) d1 d2])
qed

section \<open>Properties of the ball tracker\<close>

lemma argmin_less: "xs \<noteq> [] \<Longrightarrow> argmin xs < length xs"
  by (induction xs rule: argmin.induct) (auto simp: Let_def)

lemma argmin_least: "i < length xs \<Longrightarrow> xs ! argmin xs \<le> xs ! i"
proof (induction xs arbitrary: i rule: argmin.induct)
  case 1
  then show ?case by simp
next
  case (2 x)
  then show ?case by simp
next
  case (3 x y ys)
  show ?case
  proof (cases i)
    case 0
    then show ?thesis by (auto simp: Let_def)
  next
    case (Suc j)
    with 3 have "(y # ys) ! argmin (y # ys) \<le> (y # ys) ! j" by simp
    with Suc show ?thesis by (auto simp: Let_def)
  qed
qed

lemma argmin_first: "j < argmin xs \<Longrightarrow> xs ! argmin xs < xs ! j"
proof (induction xs arbitrary: j rule: argmin.induct)
  case 1
  then show ?case by simp
next
  case (2 x)
  then show ?case by simp
next
  case (3 x y ys)
  show ?case
  proof (cases j)
    case 0
    with 3 show ?thesis by (auto simp: Let_def split: if_splits)
  next
    case (Suc k)
    with 3 show ?thesis by (auto simp: Let_def split: if_splits)
  qed
qed

lemma update_empty: "update bt [] = (None, bt)"
  by (simp add: update_def)

lemma update_first:
  "last_position bt = None \<Longrightarrow>
   update bt (d # ds) =
     (Some (center (xyxy d)),
      bt\<lparr>buffer := deque_append (maxlen bt) (buffer bt) (center (xyxy d)),
         last_position := Some (center (xyxy d))\<rparr>)"
  by (simp add: update_def Let_def)

lemma update_nearest:
  assumes "last_position bt = Some lp" and "detections \<noteq> []"
  shows "\<exists>i < length detections.
           update bt detections =
             (Some (center (xyxy (detections ! i))),
              bt\<lparr>buffer := deque_append (maxlen bt) (buffer bt) (center (xyxy (detections ! i))),
                 last_position := Some (center (xyxy (detections ! i)))\<rparr>) \<and>
           (\<forall>j < length detections.
              linalg_norm (vsub (center (xyxy (detections ! i))) lp)
                \<le> linalg_norm (vsub (center (xyxy (detections ! j))) lp))"
proof -
  let ?dist = "\<lambda>d. linalg_norm (vsub (center (xyxy d)) lp)"
  let ?ds = "map ?dist detections"
  let ?i = "argmin ?ds"
  have ne: "?ds \<noteq> []" using assms(2) by simp
  have i: "?i < length detections" using argmin_less [OF ne] by simp
  have least: "\<forall>j < length detections. ?dist (detections ! ?i) \<le> ?dist (detections ! j)"
  proof (intro allI impI)
    fix j assume j: "j < length detections"
    then have "?ds ! ?i \<le> ?ds ! j" using argmin_least [of j ?ds] by simp
    then show "?dist (detections ! ?i) \<le> ?dist (detections ! j)"
      using i j by simp
  qed
  have eq: "map (\<lambda>p. linalg_norm (vsub p lp)) (map (\<lambda>d. center (xyxy d)) detections) = ?ds"
    by (simp add: comp_def)
  have "update bt detections =
             (Some (center (xyxy (detections ! ?i))),
              bt\<lparr>buffer := deque_append (maxlen bt) (buffer bt) (center (xyxy (detections ! ?i))),
                 last_position := Some (center (xyxy (detections ! ?i)))\<rparr>)"
    using assms i by (simp add: update_def Let_def eq del: map_map)
  with i least show ?thesis by blast
qed

lemma update_nearest_first:
  assumes "last_position bt = Some lp" and "detections \<noteq> []"
  shows "\<exists>i < length detections.
           fst (update bt detections) = Some (center (xyxy (detections ! i))) \<and>
           (\<forall>j < i.
              linalg_norm (vsub (center (xyxy (detections ! i))) lp)
                < linalg_norm (vsub (center (xyxy (detections ! j))) lp))"
proof -
  let ?dist = "\<lambda>d. linalg_norm (vsub (center (xyxy d)) lp)"
  let ?ds = "map ?dist detections"
  let ?i = "argmin ?ds"
  have ne: "?ds \<noteq> []" using assms(2) by simp
  have i: "?i < length detections" using argmin_less [OF ne] by simp
  have first: "\<forall>j < ?i. ?dist (detections ! ?i) < ?dist (detections ! j)"
  proof (intro allI impI)
    fix j assume j: "j < ?i"
    then have "?ds ! ?i < ?ds ! j" by (rule argmin_first)
    then show "?dist (detections ! ?i) < ?dist (detections ! j)"
      using i j by simp
  qed
  have eq: "map (\<lambda>p. linalg_norm (vsub p lp)) (map (\<lambda>d. center (xyxy d)) detections) = ?ds"
    by (simp add: comp_def)
  have "fst (update bt detections) = Some (center (xyxy (detections ! ?i)))"
    using assms i by (simp add: update_def Let_def eq del: map_map)
  with i first show ?thesis by blast
qed

text \<open>
  C4, as the claim states it, fails. The last position is \<open>(10, 500)\<close>; the first
  candidate's center is \<open>(1010, 500.0625)\<close>, the second's \<open>(1010, 500)\<close>. The second is
  strictly nearer, at the distance 1000. In \<open>float32\<close> the sum \<open>1000000 + 0.00390625\<close>
  of the first candidate's squares rounds to \<open>1000000\<close>, both computed distances are
  \<open>1000\<close>, \<open>np.argmin\<close> returns the first index, and the farther candidate is adopted.
\<close>

theorem update_adopts_farther_candidate:
  "update \<lparr>buffer = [(10, 500)], maxlen = 30, last_position = Some (10, 500)\<rparr>
     [\<lparr>xyxy = (1000, 7841 / 16, 1020, 8161 / 16), class_id = 0, confidence = 0.9,
        tracker_id = None\<rparr>,
      \<lparr>xyxy = (1000, 490, 1020, 510), class_id = 0, confidence = 0.8, tracker_id = None\<rparr>]
   = (Some (1010, 8001 / 16),
      \<lparr>buffer = [(10, 500), (1010, 8001 / 16)], maxlen = 30,
        last_position = Some (1010, 8001 / 16)\<rparr>) \<and>
   sqrt ((1010 - 10)\<^sup>2 + (500 - 500)\<^sup>2) < sqrt ((1010 - 10)\<^sup>2 + (8001 / 16 - 500)\<^sup>2)"
proof -
  have f1: "float32 (8001 / 8) = 8001 / 8"
    using float32_dyadic [of "8001 / 8" 3] by simp
  have f2: "float32 (8001 / 16) = 8001 / 16"
    using float32_dyadic [of "8001 / 16" 4] by simp
  have f3: "float32 (1 / 16) = 1 / 16"
    using float32_dyadic [of "1 / 16" 4] by simp
  have f4: "float32 (1 / 256) = 1 / 256"
    using float32_dyadic [of "1 / 256" 8] by simp
  have f5: "float32 (256000001 / 256) = 1000000"
    using float32_eqI [of 19 "256000001 / 256" 16000000] by simp
  have f6: "sqrt 1000000 = 1000"
    by (rule real_sqrt_unique) simp_all
  have nearer:
    "sqrt ((1010 - 10)\<^sup>2 + (500 - 500)\<^sup>2) < sqrt ((1010 - 10)\<^sup>2 + (8001 / 16 - 500)\<^sup>2)"
    by (rule real_sqrt_less_mono) simp
  have "update \<lparr>buffer = [(10, 500)], maxlen = 30, last_position = Some (10, 500)\<rparr>
     [\<lparr>xyxy = (1000, 7841 / 16, 1020, 8161 / 16), class_id = 0, confidence = 0.9,
        tracker_id = None\<rparr>,
      \<lparr>xyxy = (1000, 490, 1020, 510), class_id = 0, confidence = 0.8, tracker_id = None\<rparr>]
   = (Some (1010, 8001 / 16),
      \<lparr>buffer = [(10, 500), (1010, 8001 / 16)], maxlen = 30,
        last_position = Some (1010, 8001 / 16)\<rparr>)"
    by (simp add: update_def Let_def deque_append_def f1 f2 f3 f4 f5 f6)
  with nearer show ?thesis by (rule conjI [rotated])
qed

text \<open>
  C4, amended. \<open>BallTracker.update\<close>: with no candidate it returns \<open>None\<close> and leaves the
  tracker (trail buffer included) as it was; with candidates and no last-known position
  it adopts and returns the geometric center of the first candidate; with candidates and
  a last-known position it adopts and returns the center of the first candidate whose
  distance to the last-known position, as \<open>np.linalg.norm\<close> computes it in \<open>float32\<close>,
  is least among the computed distances of all candidates. In both adopting cases the
  adopted position is appended to the trail buffer.
\<close>

theorem BallTracker_update_cases:
  "update bt [] = (None, bt) \<and>
   (last_position bt = None \<longrightarrow>
      update bt (d # ds) =
        (Some (center (xyxy d)),
         bt\<lparr>buffer := deque_append (maxlen bt) (buffer bt) (center (xyxy d)),
            last_position := Some (center (xyxy d))\<rparr>)) \<and>
   (last_position bt = Some lp \<longrightarrow>
      (\<exists>i < length (d # ds).
         update bt (d # ds) =
           (Some (center (xyxy ((d # ds) ! i))),
            bt\<lparr>buffer := deque_append (maxlen bt) (buffer bt) (center (xyxy ((d # ds) ! i))),
               last_position := Some (center (xyxy ((d # ds) ! i)))\<rparr>) \<and>
         (\<forall>j < length (d # ds).
            linalg_norm (vsub (center (xyxy ((d # ds) ! i))) lp)
              \<le> linalg_norm (vsub (center (xyxy ((d # ds) ! j))) lp)) \<and>
         (\<forall>j < i.
            linalg_norm (vsub (center (xyxy ((d # ds) ! i))) lp)
              < linalg_norm (vsub (center (xyxy ((d # ds) ! j))) lp))))"
proof (intro conjI impI)
  show "update bt [] = (None, bt)" by (rule update_empty)
next
  assume "last_position bt = None"
  then show "update bt (d # ds) =
        (Some (center (xyxy d)),
         bt\<lparr>buffer := deque_append (maxlen bt) (buffer bt) (center (xyxy d)),
            last_position := Some (center (xyxy d))\<rparr>)"
    by (rule update_first)
next
  assume lp: "last_position bt = Some lp"
  have ne: "d # ds \<noteq> []" by simp
  obtain i where i: "i < length (d # ds)"
    and u: "update bt (d # ds) =
           (Some (center (xyxy ((d # ds) ! i))),
            bt\<lparr>buffer := deque_append (maxlen bt) (buffer bt) (center (xyxy ((d # ds) ! i))),
               last_position := Some (center (xyxy ((d # ds) ! i)))\<rparr>)"
    and least: "\<forall>j < length (d # ds).
            linalg_norm (vsub (center (xyxy ((d # ds) ! i))) lp)
              \<le> linalg_norm (vsub (center (xyxy ((d # ds) ! j))) lp)"
    using update_nearest [OF lp ne] by blast
  obtain k where k: "k < length (d # ds)"
    and fk: "fst (update bt (d # ds)) = Some (center (xyxy ((d # ds) ! k)))"
    and first: "\<forall>j < k.
            linalg_norm (vsub (center (xyxy ((d # ds) ! k))) lp)
              < linalg_norm (vsub (center (xyxy ((d # ds) ! j))) lp)"
    using update_nearest_first [OF lp ne] by blast
  have c: "center (xyxy ((d # ds) ! k)) = center (xyxy ((d # ds) ! i))"
    using fk u by simp
  have "update bt (d # ds) =
           (Some (center (xyxy ((d # ds) ! k))),
            bt\<lparr>buffer := deque_append (maxlen bt) (buffer bt) (center (xyxy ((d # ds) ! k))),
               last_position := Some (center (xyxy ((d # ds) ! k)))\<rparr>)"
    using u by (simp only: c)
  moreover have "\<forall>j < length (d # ds).
            linalg_norm (vsub (center (xyxy ((d # ds) ! k))) lp)
              \<le> linalg_norm (vsub (center (xyxy ((d # ds) ! j))) lp)"
    using least by (simp only: c)
  ultimately show "\<exists>i < length (d # ds).
         update bt (d # ds) =
           (Some (center (xyxy ((d # ds) ! i))),
            bt\<lparr>buffer := deque_append (maxlen bt) (buffer bt) (center (xyxy ((d # ds) ! i))),
               last_position := Some (center (xyxy ((d # ds) ! i)))\<rparr>) \<and>
         (\<forall>j < length (d # ds).
            linalg_norm (vsub (center (xyxy ((d # ds) ! i))) lp)
              \<le> linalg_norm (vsub (center (xyxy ((d # ds) ! j))) lp)) \<and>
         (\<forall>j < i.
            linalg_norm (vsub (center (xyxy ((d # ds) ! i))) lp)
              < linalg_norm (vsub (center (xyxy ((d # ds) ! j))) lp))"
    using k first by blast
qed

text \<open>
  The three cases at concrete inputs: a fresh tracker given no candidate; a fresh tracker
  given two candidates (the first is adopted); a tracker whose last position is
  \<open>(104, 104)\<close> given two candidates at the computed distances 100 and 5 (the second is
  adopted).
\<close>

theorem BallTracker_update_cases_witness:
  "update (BallTracker 30) [] = (None, BallTracker 30) \<and>
   last_position (BallTracker 30) = None \<and>
   update (BallTracker 30)
     [\<lparr>xyxy = (154, 174, 174, 194), class_id = 0, confidence = 0.9, tracker_id = None\<rparr>,
      \<lparr>xyxy = (102, 103, 112, 113), class_id = 0, confidence = 0.8, tracker_id = None\<rparr>]
     = (Some (164, 184), \<lparr>buffer = [(164, 184)], maxlen = 30, last_position = Some (164, 184)\<rparr>) \<and>
   update \<lparr>buffer = [(104, 104)], maxlen = 30, last_position = Some (104, 104)\<rparr>
     [\<lparr>xyxy = (154, 174, 174, 194), class_id = 0, confidence = 0.9, tracker_id = None\<rparr>,
      \<lparr>xyxy = (102, 103, 112, 113), class_id = 0, confidence = 0.8, tracker_id = None\<rparr>]
     = (Some (107, 108),
        \<lparr>buffer = [(104, 104), (107, 108)], maxlen = 30, last_position = Some (107, 108)\<rparr>)"
proof -
  have s1: "sqrt 10000 = 100" by (rule real_sqrt_unique) simp_all
  have s2: "sqrt 25 = 5" by (rule real_sqrt_unique) simp_all
  show ?thesis
    using BallTracker_update_cases
          [of "BallTracker 30"
              "\<lparr>xyxy = (154, 174, 174, 194), class_id = 0, confidence = 0.9, tracker_id = None\<rparr>"
              "[\<lparr>xyxy = (102, 103, 112, 113), class_id = 0, confidence = 0.8, tracker_id = None\<rparr>]"
              "(104, 104)"]
        BallTracker_update_cases
          [of "\<lparr>buffer = [(104, 104)], maxlen = 30, last_position = Some (104, 104)\<rparr>"
              "\<lparr>xyxy = (154, 174, 174, 194), class_id = 0, confidence = 0.9, tracker_id = None\<rparr>"
              "[\<lparr>xyxy = (102, 103, 112, 113), class_id = 0, confidence = 0.8, tracker_id = None\<rparr>]"
              "(104, 104)"]
    by (simp add: update_def BallTracker_def deque_append_def Let_def s1 s2)
qed

lemma deque_append_length:
  "length q \<le> n \<Longrightarrow> length (deque_append n q x) = min (Suc (length q)) n"
  by (auto simp: deque_append_def Let_def)

lemma deque_append_suffix:
  "length q \<le> n \<Longrightarrow> deque_append n q x = drop (Suc (length q) - n) (q @ [x])"
  by (cases q) (auto simp: deque_append_def Let_def Suc_diff_le)

lemma update_single:
  "update bt [d] =
     (Some (center (xyxy d)),
      bt\<lparr>buffer := deque_append (maxlen bt) (buffer bt) (center (xyxy d)),
         last_position := Some (center (xyxy d))\<rparr>)"
  by (cases "last_position bt") (simp_all add: update_def Let_def)

text \<open>
  Chronological order: over frames with one candidate each, the buffer is the old buffer
  followed by the adopted positions in frame order, cut at the front to the capacity.
\<close>

lemma trail_buffer_chronological:
  assumes "\<forall>f \<in> set frames. \<exists>d. f = [d]" and "length (buffer bt) \<le> maxlen bt"
  shows "buffer (updates bt frames) =
           drop (length (buffer bt) + length frames - maxlen bt)
             (buffer bt @ map (\<lambda>f. center (xyxy (hd f))) frames)"
  using assms
proof (induction frames arbitrary: bt)
  case Nil
  then show ?case by simp
next
  case (Cons f fs)
  then obtain d where f: "f = [d]" by auto
  let ?c = "center (xyxy d)"
  let ?n = "maxlen bt"
  let ?rest = "map (\<lambda>f. center (xyxy (hd f))) fs"
  let ?bt = "snd (update bt f)"
  have buf: "buffer ?bt = drop (Suc (length (buffer bt)) - ?n) (buffer bt @ [?c])"
    using f Cons.prems(2) by (simp add: update_single deque_append_suffix)
  have ml: "maxlen ?bt = ?n"
    using f by (simp add: update_single)
  have len: "length (buffer ?bt) \<le> maxlen ?bt"
    using buf ml Cons.prems(2) by simp
  have ih: "buffer (updates ?bt fs) =
          drop (length (buffer ?bt) + length fs - ?n) (buffer ?bt @ ?rest)"
    using Cons.IH [of ?bt] Cons.prems(1) len ml by simp
  show ?case
  proof (cases "length (buffer bt) < ?n")
    case True
    then have b0: "buffer ?bt = buffer bt @ [?c]" using buf by simp
    have "buffer (updates ?bt fs) =
            drop (length (buffer bt @ [?c]) + length fs - ?n) ((buffer bt @ [?c]) @ ?rest)"
      using ih unfolding b0 .
    moreover have "(buffer bt @ [?c]) @ ?rest = buffer bt @ ?c # ?rest" by simp
    moreover have "length (buffer bt @ [?c]) + length fs = length (buffer bt) + length (f # fs)"
      by simp
    ultimately have "buffer (updates ?bt fs) =
            drop (length (buffer bt) + length (f # fs) - ?n) (buffer bt @ ?c # ?rest)"
      by (simp only:)
    then show ?thesis using f by (simp del: drop_append)
  next
    case False
    with Cons.prems(2) have eq: "length (buffer bt) = ?n" by simp
    then have b1: "buffer ?bt = drop 1 (buffer bt @ [?c])" using buf by simp
    have "buffer ?bt @ ?rest = drop 1 (buffer bt @ ?c # ?rest)"
      unfolding b1 by (cases "buffer bt") simp_all
    moreover have "length (buffer ?bt) = ?n" using b1 eq by simp
    ultimately have "buffer (updates ?bt fs) = drop (length fs) (drop 1 (buffer bt @ ?c # ?rest))"
      using ih by (simp del: drop_append)
    then have "buffer (updates ?bt fs) = drop (Suc (length fs)) (buffer bt @ ?c # ?rest)"
      by (simp del: drop_append)
    then show ?thesis using f eq by (simp del: drop_append)
  qed
qed

text \<open>
  C5. Starting from the tracker as \<open>process_video\<close> sets it up (capacity 30, reset),
  after one \<open>update\<close> per frame, each frame carrying a single ball detection whose center
  is \<open>p\<close>, the trail buffer holds exactly \<open>min N 30\<close> entries, all equal to \<open>p\<close>, where
  \<open>N\<close> is the number of frames. The buffer is a list with the oldest entry first
  (\<open>trail_buffer_chronological\<close>); entries beyond the capacity leave at the front.
\<close>

theorem trail_buffer_same_position:
  assumes "\<forall>f \<in> set frames. \<exists>d. f = [d] \<and> center (xyxy d) = p"
  shows "buffer (updates (reset (BallTracker 30)) frames) = replicate (min (length frames) 30) p"
proof -
  have single: "\<forall>f \<in> set frames. \<exists>d. f = [d]" using assms by blast
  have "map (\<lambda>f. center (xyxy (hd f))) frames = replicate (length frames) p"
    using assms by (induction frames) auto
  then have "buffer (updates (reset (BallTracker 30)) frames) =
               drop (length frames - 30) (replicate (length frames) p)"
    using trail_buffer_chronological [OF single, of "reset (BallTracker 30)"]
    by (simp add: reset_def BallTracker_def)
  then show ?thesis by (simp add: min_def)
qed

text \<open>
  Two runs: 31 frames with the same detection fill the buffer to its capacity of 30; two
  frames with different boxes of the same center \<open>(5, 5)\<close> give two entries.
\<close>

theorem trail_buffer_same_position_witness:
  "buffer (updates (reset (BallTracker 30))
     (replicate 31
        [\<lparr>xyxy = (0, 0, 10, 10), class_id = 0, confidence = 0.9, tracker_id = None\<rparr>]))
     = replicate 30 (5, 5) \<and>
   buffer (updates (reset (BallTracker 30))
     [[\<lparr>xyxy = (0, 0, 10, 10), class_id = 0, confidence = 0.9, tracker_id = None\<rparr>],
      [\<lparr>xyxy = (2, 2, 8, 8), class_id = 0, confidence = 0.5, tracker_id = None\<rparr>]])
     = [(5, 5), (5, 5)]"
  using trail_buffer_same_position
          [of "replicate 31
                 [\<lparr>xyxy = (0, 0, 10, 10), class_id = 0, confidence = 0.9, tracker_id = None\<rparr>]"
              "(5, 5)"]
        trail_buffer_same_position
          [of "[[\<lparr>xyxy = (0, 0, 10, 10), class_id = 0, confidence = 0.9, tracker_id = None\<rparr>],
                [\<lparr>xyxy = (2, 2, 8, 8), class_id = 0, confidence = 0.5, tracker_id = None\<rparr>]]"
              "(5, 5)"]
  by (simp add: numeral_2_eq_2)

section \<open>Properties of goalkeeper resolution\<close>

lemma team_centroid_defined:
  "(team_centroid players t \<noteq> None) = (\<exists>p \<in> set players. class_id p = t)"
  by (auto simp: team_centroid_def mean_axis0_def filter_empty_conv)

lemma resolve_length [simp]:
  "length (resolve_goalkeepers_team_id players goalkeepers) = length goalkeepers"
  by (simp add: resolve_goalkeepers_team_id_def Let_def)

lemma resolve_nth:
  "i < length goalkeepers \<Longrightarrow>
   resolve_goalkeepers_team_id players goalkeepers ! i =
     (if float_less (norm_to (bottom_center (xyxy (goalkeepers ! i))) (team_centroid players 0))
                    (norm_to (bottom_center (xyxy (goalkeepers ! i))) (team_centroid players 1))
      then 0 else 1)"
  by (simp add: resolve_goalkeepers_team_id_def Let_def)

lemma resolve_nth_defined:
  assumes "team_centroid players 0 = Some c0" and "team_centroid players 1 = Some c1"
    and "i < length goalkeepers"
  shows "resolve_goalkeepers_team_id players goalkeepers ! i =
     (if linalg_norm (vsub (bottom_center (xyxy (goalkeepers ! i))) c0)
           < linalg_norm (vsub (bottom_center (xyxy (goalkeepers ! i))) c1)
      then 0 else 1)"
  by (simp only: resolve_nth [OF assms(3)] assms(1,2) norm_to.simps float_less.simps)

text \<open>The two distances of the spec's example, as \<open>float32\<close> computes them.\<close>

lemma float32_sqrt_50: "float32 (sqrt 50) = 926819 / 131072"
  using float32_sqrt_eqI [of 14829104 2 50] by (simp add: power2_eq_square)

lemma float32_sqrt_18050: "float32 (sqrt 18050) = 8804781 / 65536"
  using float32_sqrt_eqI [of 8804781 7 18050] by (simp add: power2_eq_square)

lemma example_norms:
  "linalg_norm (vsub (5, 5) (0, 0)) = 926819 / 131072"
  "linalg_norm (vsub (5, 5) (100, 100)) = 8804781 / 65536"
  "linalg_norm (vsub (95, 95) (0, 0)) = 8804781 / 65536"
  "linalg_norm (vsub (95, 95) (100, 100)) = 926819 / 131072"
  by (simp_all add: float32_sqrt_50 float32_sqrt_18050)

text \<open>
  C6, as the claim states it, fails. Team 0's only player is anchored at \<open>(10, 500)\<close>,
  team 1's at \<open>(2010, 500.0625)\<close>, so these anchors are the centroids; the goalkeeper is
  anchored at \<open>(1010, 500)\<close>, at the distance 1000 from team 0's centroid and more than
  1000 from team 1's. In \<open>float32\<close> both computed distances are \<open>1000\<close>, \<open>dist_0 < dist_1\<close>
  is false, and the goalkeeper gets label 1 though team 0's centroid is strictly nearer.
\<close>

theorem resolve_near_tie_label_1:
  "team_centroid
     [\<lparr>xyxy = (0, 460, 20, 500), class_id = 0, confidence = 0.9, tracker_id = Some 1\<rparr>,
      \<lparr>xyxy = (2000, 7361 / 16, 2020, 8001 / 16), class_id = 1, confidence = 0.9,
        tracker_id = Some 2\<rparr>] 0
     = Some (10, 500) \<and>
   team_centroid
     [\<lparr>xyxy = (0, 460, 20, 500), class_id = 0, confidence = 0.9, tracker_id = Some 1\<rparr>,
      \<lparr>xyxy = (2000, 7361 / 16, 2020, 8001 / 16), class_id = 1, confidence = 0.9,
        tracker_id = Some 2\<rparr>] 1
     = Some (2010, 8001 / 16) \<and>
   bottom_center (1000, 460, 1020, 500) = (1010, 500) \<and>
   sqrt ((1010 - 10)\<^sup>2 + (500 - 500)\<^sup>2) < sqrt ((1010 - 2010)\<^sup>2 + (500 - 8001 / 16)\<^sup>2) \<and>
   resolve_goalkeepers_team_id
     [\<lparr>xyxy = (0, 460, 20, 500), class_id = 0, confidence = 0.9, tracker_id = Some 1\<rparr>,
      \<lparr>xyxy = (2000, 7361 / 16, 2020, 8001 / 16), class_id = 1, confidence = 0.9,
        tracker_id = Some 2\<rparr>]
     [\<lparr>xyxy = (1000, 460, 1020, 500), class_id = 1, confidence = 0.9, tracker_id = Some 3\<rparr>]
     = [1]"
proof -
  have f2: "float32 (8001 / 16) = 8001 / 16"
    using float32_dyadic [of "8001 / 16" 4] by simp
  have f3: "float32 (- (1 / 16)) = - (1 / 16)"
    using float32_dyadic [of "- (1 / 16)" 4] by simp
  have f4: "float32 (1 / 256) = 1 / 256"
    using float32_dyadic [of "1 / 256" 8] by simp
  have f5: "float32 (256000001 / 256) = 1000000"
    using float32_eqI [of 19 "256000001 / 256" 16000000] by simp
  have f6: "sqrt 1000000 = 1000"
    by (rule real_sqrt_unique) simp_all
  have nearer:
    "sqrt ((1010 - 10)\<^sup>2 + (500 - 500)\<^sup>2) < sqrt ((1010 - 2010)\<^sup>2 + (500 - 8001 / 16)\<^sup>2)"
    by (rule real_sqrt_less_mono) simp
  show ?thesis
    by (intro conjI nearer)
       (simp_all add: resolve_goalkeepers_team_id_def team_centroid_def mean_axis0_def Let_def
          f2 f3 f4 f5 f6)
qed

text \<open>
  C6, amended. When each team has at least one labeled player, both centroids \<open>c0\<close> and
  \<open>c1\<close> (the \<open>float32\<close> means of the bottom-center anchors of the players labeled 0 and
  1) are defined, one label is returned per goalkeeper, and a goalkeeper gets label 0
  when the distance from its bottom-center anchor to \<open>c0\<close>, as \<open>np.linalg.norm\<close>
  computes it in \<open>float32\<close>, is strictly smaller than the computed distance to \<open>c1\<close>, and
  label 1 when the computed distance to \<open>c1\<close> is strictly smaller. In particular, with
  \<open>c0 = (0, 0)\<close> and \<open>c1 = (100, 100)\<close>, an anchor \<open>(5, 5)\<close> gives label 0 and an anchor
  \<open>(95, 95)\<close> gives label 1.
\<close>

theorem resolve_nearer_centroid:
  assumes "\<exists>p \<in> set players. class_id p = 0" and "\<exists>p \<in> set players. class_id p = 1"
  shows "\<exists>c0 c1.
           team_centroid players 0 = Some c0 \<and> team_centroid players 1 = Some c1 \<and>
           length (resolve_goalkeepers_team_id players goalkeepers) = length goalkeepers \<and>
           (\<forall>i < length goalkeepers.
              (linalg_norm (vsub (bottom_center (xyxy (goalkeepers ! i))) c0)
                 < linalg_norm (vsub (bottom_center (xyxy (goalkeepers ! i))) c1)
               \<longrightarrow> resolve_goalkeepers_team_id players goalkeepers ! i = 0) \<and>
              (linalg_norm (vsub (bottom_center (xyxy (goalkeepers ! i))) c1)
                 < linalg_norm (vsub (bottom_center (xyxy (goalkeepers ! i))) c0)
               \<longrightarrow> resolve_goalkeepers_team_id players goalkeepers ! i = 1) \<and>
              (c0 = (0, 0) \<and> c1 = (100, 100) \<and> bottom_center (xyxy (goalkeepers ! i)) = (5, 5)
               \<longrightarrow> resolve_goalkeepers_team_id players goalkeepers ! i = 0) \<and>
              (c0 = (0, 0) \<and> c1 = (100, 100) \<and> bottom_center (xyxy (goalkeepers ! i)) = (95, 95)
               \<longrightarrow> resolve_goalkeepers_team_id players goalkeepers ! i = 1))"
proof -
  obtain c0 where c0: "team_centroid players 0 = Some c0"
    using assms(1) team_centroid_defined [of players 0] by auto
  obtain c1 where c1: "team_centroid players 1 = Some c1"
    using assms(2) team_centroid_defined [of players 1] by auto
  have "\<forall>i < length goalkeepers.
              (linalg_norm (vsub (bottom_center (xyxy (goalkeepers ! i))) c0)
                 < linalg_norm (vsub (bottom_center (xyxy (goalkeepers ! i))) c1)
               \<longrightarrow> resolve_goalkeepers_team_id players goalkeepers ! i = 0) \<and>
              (linalg_norm (vsub (bottom_center (xyxy (goalkeepers ! i))) c1)
                 < linalg_norm (vsub (bottom_center (xyxy (goalkeepers ! i))) c0)
               \<longrightarrow> resolve_goalkeepers_team_id players goalkeepers ! i = 1) \<and>
              (c0 = (0, 0) \<and> c1 = (100, 100) \<and> bottom_center (xyxy (goalkeepers ! i)) = (5, 5)
               \<longrightarrow> resolve_goalkeepers_team_id players goalkeepers ! i = 0) \<and>
              (c0 = (0, 0) \<and> c1 = (100, 100) \<and> bottom_center (xyxy (goalkeepers ! i)) = (95, 95)
               \<longrightarrow> resolve_goalkeepers_team_id players goalkeepers ! i = 1)"
  proof (intro allI impI)
    fix i assume i: "i < length goalkeepers"
    note r = resolve_nth_defined [OF c0 c1 i]
    show "(linalg_norm (vsub (bottom_center (xyxy (goalkeepers ! i))) c0)
                 < linalg_norm (vsub (bottom_center (xyxy (goalkeepers ! i))) c1)
               \<longrightarrow> resolve_goalkeepers_team_id players goalkeepers ! i = 0) \<and>
              (linalg_norm (vsub (bottom_center (xyxy (goalkeepers ! i))) c1)
                 < linalg_norm (vsub (bottom_center (xyxy (goalkeepers ! i))) c0)
               \<longrightarrow> resolve_goalkeepers_team_id players goalkeepers ! i = 1) \<and>
              (c0 = (0, 0) \<and> c1 = (100, 100) \<and> bottom_center (xyxy (goalkeepers ! i)) = (5, 5)
               \<longrightarrow> resolve_goalkeepers_team_id players goalkeepers ! i = 0) \<and>
              (c0 = (0, 0) \<and> c1 = (100, 100) \<and> bottom_center (xyxy (goalkeepers ! i)) = (95, 95)
               \<longrightarrow> resolve_goalkeepers_team_id players goalkeepers ! i = 1)"
      unfolding r by (auto simp only: example_norms) simp_all
  qed
  with c0 c1 show ?thesis by simp
qed

text \<open>
  One player of team 0 anchored at \<open>(0, 0)\<close>, two of team 1 anchored at \<open>(90, 90)\<close>
  and \<open>(110, 110)\<close> (centroid \<open>(100, 100)\<close>), goalkeepers anchored at \<open>(5, 5)\<close> and
  \<open>(95, 95)\<close>.
\<close>

theorem resolve_nearer_centroid_witness:
  "team_centroid
     [\<lparr>xyxy = (-10, -40, 10, 0), class_id = 0, confidence = 0.9, tracker_id = Some 1\<rparr>,
      \<lparr>xyxy = (80, 60, 100, 90), class_id = 1, confidence = 0.9, tracker_id = Some 2\<rparr>,
      \<lparr>xyxy = (100, 70, 120, 110), class_id = 1, confidence = 0.9, tracker_id = Some 3\<rparr>] 0
     = Some (0, 0) \<and>
   team_centroid
     [\<lparr>xyxy = (-10, -40, 10, 0), class_id = 0, confidence = 0.9, tracker_id = Some 1\<rparr>,
      \<lparr>xyxy = (80, 60, 100, 90), class_id = 1, confidence = 0.9, tracker_id = Some 2\<rparr>,
      \<lparr>xyxy = (100, 70, 120, 110), class_id = 1, confidence = 0.9, tracker_id = Some 3\<rparr>] 1
     = Some (100, 100) \<and>
   resolve_goalkeepers_team_id
     [\<lparr>xyxy = (-10, -40, 10, 0), class_id = 0, confidence = 0.9, tracker_id = Some 1\<rparr>,
      \<lparr>xyxy = (80, 60, 100, 90), class_id = 1, confidence = 0.9, tracker_id = Some 2\<rparr>,
      \<lparr>xyxy = (100, 70, 120, 110), class_id = 1, confidence = 0.9, tracker_id = Some 3\<rparr>]
     [\<lparr>xyxy = (0, -15, 10, 5), class_id = 1, confidence = 0.9, tracker_id = Some 4\<rparr>,
      \<lparr>xyxy = (90, 75, 100, 95), class_id = 1, confidence = 0.9, tracker_id = Some 5\<rparr>]
     = [0, 1]"
  using resolve_nearer_centroid
    [of "[\<lparr>xyxy = (-10, -40, 10, 0), class_id = 0, confidence = 0.9, tracker_id = Some 1\<rparr>,
      \<lparr>xyxy = (80, 60, 100, 90), class_id = 1, confidence = 0.9, tracker_id = Some 2\<rparr>,
      \<lparr>xyxy = (100, 70, 120, 110), class_id = 1, confidence = 0.9, tracker_id = Some 3\<rparr>]"
     "[\<lparr>xyxy = (0, -15, 10, 5), class_id = 1, confidence = 0.9, tracker_id = Some 4\<rparr>,
      \<lparr>xyxy = (90, 75, 100, 95), class_id = 1, confidence = 0.9, tracker_id = Some 5\<rparr>]"]
  by (simp add: resolve_goalkeepers_team_id_def team_centroid_def mean_axis0_def Let_def
      float32_sqrt_50 float32_sqrt_18050)

text \<open>
  C10, as the claim states it, fails. Team 0's players are anchored at \<open>x = 100, 100, 101\<close>
  and team 1's at \<open>x = 116, 116, 157\<close>, all at \<open>y = 200\<close>; the goalkeeper is anchored at
  \<open>(115, 200)\<close>, exactly \<open>44 / 3\<close> from the mean anchor of either team. The \<open>float32\<close>
  means are \<open>100.33333587...\<close> and \<open>129.66667175...\<close>, both above the exact means, the
  computed distances are \<open>14.666664...\<close> and \<open>14.666671...\<close>, \<open>dist_0 < dist_1\<close> holds and
  the goalkeeper gets label 0.
\<close>

theorem resolve_exact_tie_label_0:
  "sqrt ((115 - (100 + 100 + 101) / 3)\<^sup>2 + (200 - (200 + 200 + 200) / 3)\<^sup>2)
     = sqrt ((115 - (116 + 116 + 157) / 3)\<^sup>2 + (200 - (200 + 200 + 200) / 3)\<^sup>2) \<and>
   map (\<lambda>d. bottom_center (xyxy d))
     [\<lparr>xyxy = (90, 160, 110, 200), class_id = 0, confidence = 0.9, tracker_id = Some 1\<rparr>,
      \<lparr>xyxy = (85, 160, 115, 200), class_id = 0, confidence = 0.9, tracker_id = Some 2\<rparr>,
      \<lparr>xyxy = (91, 160, 111, 200), class_id = 0, confidence = 0.9, tracker_id = Some 3\<rparr>,
      \<lparr>xyxy = (106, 160, 126, 200), class_id = 1, confidence = 0.9, tracker_id = Some 4\<rparr>,
      \<lparr>xyxy = (100, 160, 132, 200), class_id = 1, confidence = 0.9, tracker_id = Some 5\<rparr>,
      \<lparr>xyxy = (147, 160, 167, 200), class_id = 1, confidence = 0.9, tracker_id = Some 6\<rparr>,
      \<lparr>xyxy = (105, 160, 125, 200), class_id = 1, confidence = 0.9, tracker_id = Some 7\<rparr>]
     = [(100, 200), (100, 200), (101, 200), (116, 200), (116, 200), (157, 200), (115, 200)] \<and>
   resolve_goalkeepers_team_id
     [\<lparr>xyxy = (90, 160, 110, 200), class_id = 0, confidence = 0.9, tracker_id = Some 1\<rparr>,
      \<lparr>xyxy = (85, 160, 115, 200), class_id = 0, confidence = 0.9, tracker_id = Some 2\<rparr>,
      \<lparr>xyxy = (91, 160, 111, 200), class_id = 0, confidence = 0.9, tracker_id = Some 3\<rparr>,
      \<lparr>xyxy = (106, 160, 126, 200), class_id = 1, confidence = 0.9, tracker_id = Some 4\<rparr>,
      \<lparr>xyxy = (100, 160, 132, 200), class_id = 1, confidence = 0.9, tracker_id = Some 5\<rparr>,
      \<lparr>xyxy = (147, 160, 167, 200), class_id = 1, confidence = 0.9, tracker_id = Some 6\<rparr>]
     [\<lparr>xyxy = (105, 160, 125, 200), class_id = 1, confidence = 0.9, tracker_id = Some 7\<rparr>]
     = [0]"
proof -
  have g1: "float32 (301 / 3) = 13150891 / 131072"
    using float32_eqI [of 6 "301 / 3" 13150891] by simp
  have g2: "float32 (389 / 3) = 8497835 / 65536"
    using float32_eqI [of 7 "389 / 3" 8497835] by simp
  have g3: "float32 (1922389 / 131072) = 1922389 / 131072"
    using float32_dyadic [of "1922389 / 131072" 17] by simp
  have g4: "float32 (- (961195 / 65536)) = - (961195 / 65536)"
    using float32_dyadic [of "- (961195 / 65536)" 16] by simp
  have g5: "float32 (3695579467321 / 17179869184) = 14097517 / 65536"
    using float32_eqI [of 7 "3695579467321 / 17179869184" 14097517] by simp
  have g6: "float32 (923895828025 / 4294967296) = 3524383 / 16384"
    using float32_eqI [of 7 "923895828025 / 4294967296" 14097532] by simp
  have g7: "float32 (14097517 / 65536) = 14097517 / 65536"
    using float32_dyadic [of "14097517 / 65536" 16] by simp
  have g8: "float32 (3524383 / 16384) = 3524383 / 16384"
    using float32_dyadic [of "3524383 / 16384" 14] by simp
  have g9: "float32 (sqrt (14097517 / 65536)) = 1922389 / 131072"
    using float32_sqrt_eqI [of 15379112 3 "14097517 / 65536"] by (simp add: power2_eq_square)
  have g10: "float32 (sqrt (3524383 / 16384)) = 961195 / 65536"
    using float32_sqrt_eqI [of 15379120 3 "3524383 / 16384"] by (simp add: power2_eq_square)
  have tie: "sqrt ((115 - (100 + 100 + 101) / 3)\<^sup>2 + (200 - (200 + 200 + 200) / 3)\<^sup>2)
     = sqrt ((115 - (116 + 116 + 157) / 3)\<^sup>2 + (200 - (200 + 200 + 200) / 3)\<^sup>2)"
    by (simp add: power2_eq_square)
  show ?thesis
    by (intro conjI tie)
       (simp_all add: resolve_goalkeepers_team_id_def team_centroid_def mean_axis0_def Let_def
          g1 g2 g3 g4 g5 g6 g7 g8 g9 g10)
qed

text \<open>
  C10, amended. With both centroids defined, a goalkeeper for whom the two distances that
  \<open>np.linalg.norm\<close> computes in \<open>float32\<close>, from its bottom-center anchor to the two
  computed centroids, are equal gets label 1: label 0 is returned exactly when the
  computed distance to team 0's centroid is strictly smaller than the computed distance
  to team 1's.
\<close>

theorem resolve_tie_label_1:
  assumes "team_centroid players 0 = Some c0" and "team_centroid players 1 = Some c1"
    and "i < length goalkeepers"
  shows "(linalg_norm (vsub (bottom_center (xyxy (goalkeepers ! i))) c0)
            = linalg_norm (vsub (bottom_center (xyxy (goalkeepers ! i))) c1)
          \<longrightarrow> resolve_goalkeepers_team_id players goalkeepers ! i = 1) \<and>
         (resolve_goalkeepers_team_id players goalkeepers ! i = 0 \<longleftrightarrow>
            linalg_norm (vsub (bottom_center (xyxy (goalkeepers ! i))) c0)
              < linalg_norm (vsub (bottom_center (xyxy (goalkeepers ! i))) c1))"
  unfolding resolve_nth_defined [OF assms] by auto

text \<open>
  Centroids \<open>(10, 10)\<close> and \<open>(110, 110)\<close>, a goalkeeper anchored at \<open>(10, 110)\<close>,
  at the computed distance 100 from both.
\<close>

theorem resolve_tie_label_1_witness:
  "team_centroid
     [\<lparr>xyxy = (0, 0, 20, 10), class_id = 0, confidence = 0.9, tracker_id = Some 1\<rparr>,
      \<lparr>xyxy = (100, 90, 120, 110), class_id = 1, confidence = 0.9, tracker_id = Some 2\<rparr>] 0
     = Some (10, 10) \<and>
   team_centroid
     [\<lparr>xyxy = (0, 0, 20, 10), class_id = 0, confidence = 0.9, tracker_id = Some 1\<rparr>,
      \<lparr>xyxy = (100, 90, 120, 110), class_id = 1, confidence = 0.9, tracker_id = Some 2\<rparr>] 1
     = Some (110, 110) \<and>
   linalg_norm (vsub (bottom_center (0, 90, 20, 110)) (10, 10)) = 100 \<and>
   linalg_norm (vsub (bottom_center (0, 90, 20, 110)) (110, 110)) = 100 \<and>
   resolve_goalkeepers_team_id
     [\<lparr>xyxy = (0, 0, 20, 10), class_id = 0, confidence = 0.9, tracker_id = Some 1\<rparr>,
      \<lparr>xyxy = (100, 90, 120, 110), class_id = 1, confidence = 0.9, tracker_id = Some 2\<rparr>]
     [\<lparr>xyxy = (0, 90, 20, 110), class_id = 1, confidence = 0.9, tracker_id = Some 3\<rparr>] ! 0
     = 1"
proof -
  have s1: "sqrt 10000 = 100" by (rule real_sqrt_unique) simp_all
  show ?thesis
    using resolve_tie_label_1
      [of "[\<lparr>xyxy = (0, 0, 20, 10), class_id = 0, confidence = 0.9, tracker_id = Some 1\<rparr>,
        \<lparr>xyxy = (100, 90, 120, 110), class_id = 1, confidence = 0.9, tracker_id = Some 2\<rparr>]"
        "(10, 10)" "(110, 110)" 0
        "[\<lparr>xyxy = (0, 90, 20, 110), class_id = 1, confidence = 0.9, tracker_id = Some 3\<rparr>]"]
    by (simp add: resolve_goalkeepers_team_id_def team_centroid_def mean_axis0_def Let_def s1)
qed

text \<open>
  When one team has no labeled player its centroid is NaN, every comparison with the NaN
  distance is false, and every goalkeeper gets label 1, whichever team is the empty one.
\<close>

lemma team_centroid_None:
  "(team_centroid players t = None) = (\<forall>p \<in> set players. class_id p \<noteq> t)"
  by (auto simp: team_centroid_def mean_axis0_def filter_empty_conv)

lemma resolve_team_1_empty:
  "\<not> (\<exists>p \<in> set players. class_id p = 1) \<Longrightarrow>
   resolve_goalkeepers_team_id players goalkeepers = replicate (length goalkeepers) 1"
proof -
  assume "\<not> (\<exists>p \<in> set players. class_id p = 1)"
  then have "team_centroid players 1 = None"
    by (auto simp: team_centroid_None)
  then show ?thesis
    by (simp add: resolve_goalkeepers_team_id_def Let_def map_replicate_const
        del: One_nat_def)
qed

lemma resolve_team_0_empty:
  "\<not> (\<exists>p \<in> set players. class_id p = 0) \<Longrightarrow>
   resolve_goalkeepers_team_id players goalkeepers = replicate (length goalkeepers) 1"
proof -
  assume "\<not> (\<exists>p \<in> set players. class_id p = 0)"
  then have "team_centroid players 0 = None"
    by (auto simp: team_centroid_None)
  then show ?thesis
    by (simp add: resolve_goalkeepers_team_id_def Let_def map_replicate_const)
qed

text \<open>
  C1. A frame whose only labeled player is of team 0, with one goalkeeper standing at
  that player's anchor: \<open>resolve_goalkeepers_team_id\<close> neither fails nor assigns the
  sole team that has players; it returns label 1, the team without any labeled player.
\<close>

theorem resolve_team_1_missing_mislabels:
  "resolve_goalkeepers_team_id
     [\<lparr>xyxy = (0, 0, 20, 10), class_id = 0, confidence = 0.9, tracker_id = Some 1\<rparr>]
     [\<lparr>xyxy = (0, 0, 20, 10), class_id = 1, confidence = 0.9, tracker_id = Some 2\<rparr>]
     = [1]"
  by (simp add: resolve_goalkeepers_team_id_def team_centroid_def mean_axis0_def Let_def)

section \<open>Properties of the classifier training\<close>

lemmas example_defs =
  example_ball_def example_player_def example_player'_def example_referee_def
  example_goalkeeper_def
  example_collaborators_def example_start_def
  BALL_ID_def GOALKEEPER_ID_def PLAYER_ID_def REFEREE_ID_def

text \<open>The loop stops at the first frame after which the cap is reached.\<close>

lemma collect_crops_stops:
  assumes "get_detections C frame = Inr ds" and "with_nms C (1 / 2) True ds = Inr ds'"
    and "max_crops \<le> int (length crops + length (filter (\<lambda>d. class_id d = PLAYER_ID) ds'))"
  shows "collect_crops C max_crops (frame # rest) crops =
           Inr (crops @ map (\<lambda>d. (frame, xyxy d)) (filter (\<lambda>d. class_id d = PLAYER_ID) ds'))"
  using assms by (simp add: Let_def)

text \<open>
  What bounds the number of crops: when no sampled frame holds more than \<open>k\<close> players,
  fewer than \<open>max_crops + k\<close> crops are collected.
\<close>

lemma collect_crops_bound:
  assumes "collect_crops C max_crops frames crops = Inr result"
    and "int (length crops) < max_crops"
    and "\<forall>frame \<in> set frames. \<forall>ds ds'.
           get_detections C frame = Inr ds \<longrightarrow> with_nms C (1 / 2) True ds = Inr ds' \<longrightarrow>
           length (filter (\<lambda>d. class_id d = PLAYER_ID) ds') \<le> k"
  shows "int (length result) < max_crops + int k"
  using assms
proof (induction frames arbitrary: crops)
  case Nil
  then show ?case by simp
next
  case (Cons frame rest)
  from Cons.prems(1) obtain ds where ds: "get_detections C frame = Inr ds"
    by (cases "get_detections C frame") simp_all
  from Cons.prems(1) ds obtain ds' where ds': "with_nms C (1 / 2) True ds = Inr ds'"
    by (cases "with_nms C (1 / 2) True ds") simp_all
  let ?players = "filter (\<lambda>d. class_id d = PLAYER_ID) ds'"
  let ?crops = "crops @ map (\<lambda>d. (frame, xyxy d)) ?players"
  have k: "length ?players \<le> k" using Cons.prems(3) ds ds' by simp
  show ?case
  proof (cases "max_crops \<le> int (length ?crops)")
    case True
    then have "result = ?crops" using Cons.prems(1) ds ds' by (simp add: Let_def)
    then show ?thesis using k Cons.prems(2) by simp
  next
    case False
    then have "collect_crops C max_crops rest ?crops = Inr result"
      using Cons.prems(1) ds ds' by (simp add: Let_def)
    moreover have "int (length ?crops) < max_crops" using False by simp
    ultimately show ?thesis using Cons.IH [of ?crops] Cons.prems(3) by simp
  qed
qed

text \<open>
  C7. A video of one frame that holds two players, with \<open>stride = 30\<close> and
  \<open>max_crops = 1\<close>: the one sampled frame contributes both crops before the cap is
  tested, so two crops are collected, more than \<open>max_crops\<close>.
\<close>

theorem crops_exceed_max_crops:
  "collect_crops (example_collaborators [example_player, example_player'] None)
     1 (every_nth 30 [0]) []
   = Inr [(0, (0, 0, 20, 40)), (0, (50, 0, 70, 40))]"
  by (simp add: example_defs)

lemma fit_spec_nonempty: "crops \<noteq> [] \<Longrightarrow> fit_spec train crops = Inr (train crops)"
  by (simp add: fit_spec_def)

text \<open>
  C8. With the fit of the spec, when the crop collection ends with no crop,
  \<open>create_team_classifier\<close> calls the fit with the empty list and ends with its failure
  (TrainingDataInsufficient) instead of a classifier. The analysis of \<open>app.py\<close>, for a
  start frame inside the video, trains with \<open>stride = 30\<close> and \<open>max_crops = 500\<close> before it
  processes any frame and outside its \<open>try\<close>: its result is that exception, uncaught, with
  no statistics and no frame emitted.
\<close>

theorem fit_failure_surfaces:
  assumes "fit C = fit_spec train"
    and "collect_crops C max_crops (every_nth stride video) [] = Inr []"
  shows "create_team_classifier C video stride max_crops
           = Inl (Exception ''TrainingDataInsufficient'') \<and>
         (stride = 30 \<and> max_crops = 500 \<and> start_frame < length video \<longrightarrow>
            analysis C video start_frame max_frames
              = Inl (Exception ''TrainingDataInsufficient''))"
  using assms by (auto simp: create_team_classifier_def analysis_def fit_spec_def)

text \<open>A video of three frames that show a referee only.\<close>

theorem fit_failure_surfaces_witness:
  "fit (example_collaborators [example_referee] None) = fit_spec (\<lambda>crops. ()) \<and>
   collect_crops (example_collaborators [example_referee] None) 500 (every_nth 30 [0, 1, 2]) []
     = Inr [] \<and>
   create_team_classifier (example_collaborators [example_referee] None) [0, 1, 2] 30 500
     = Inl (Exception ''TrainingDataInsufficient'') \<and>
   analysis (example_collaborators [example_referee] None) [0, 1, 2] 0 None
     = Inl (Exception ''TrainingDataInsufficient'')"
proof -
  have f: "fit (example_collaborators [example_referee] None) = fit_spec (\<lambda>crops. ())"
    by (simp add: example_collaborators_def)
  have c: "collect_crops (example_collaborators [example_referee] None) 500
             (every_nth 30 [0, 1, 2]) [] = Inr []"
    by (simp add: example_defs)
  from fit_failure_surfaces [OF f c, of 0 None] f c show ?thesis by simp
qed

section \<open>Properties of the frame pipeline\<close>

lemma detect_ball_absent:
  "ball_yolo C = None \<Longrightarrow>
   detect_ball C frame detections =
     map (\<lambda>d. d\<lparr>xyxy := pad_boxes 10 (xyxy d)\<rparr>) (filter (\<lambda>d. class_id d = BALL_ID) detections)"
  by (simp add: detect_ball_def Let_def)

lemma detect_ball_raises:
  "ball_yolo C = Some p \<Longrightarrow> p frame = Inl e \<Longrightarrow>
   detect_ball C frame detections = filter (\<lambda>d. class_id d = BALL_ID) detections"
  by (simp add: detect_ball_def)

lemma classify_players_stats:
  assumes "classify_players C tc frame players st = Inr (t0, t1, st')"
  shows "frames_procesados st' = frames_procesados st \<and>
         detecciones_balon st' = detecciones_balon st \<and>
         total_detecciones st' = total_detecciones st \<and>
         porteros_detectados st' = porteros_detectados st \<and>
         arbitros_detectados st' = arbitros_detectados st"
  using assms
  by (auto simp: classify_players_def Let_def split: if_splits sum.splits)

lemma process_frame_empty:
  "get_detections C frame = Inr [] \<Longrightarrow>
   process_frame C tc s frame =
     Inr (s\<lparr>stats := (stats s)\<lparr>frames_procesados := frames_procesados (stats s) + 1\<rparr>\<rparr>,
          [Detect, Emit (Raw frame)])"
  by (simp add: process_frame_def)

lemma process_frame_Inl:
  assumes "get_detections C frame = Inr detections" and "detections \<noteq> []"
    and "process_frame C tc s frame = Inl e"
  shows "\<exists>st. classify_players C tc frame
                (filter (\<lambda>d. class_id d = PLAYER_ID)
                   (fst (update_with_detections C (tracker s) detections))) st = Inl e"
  using assms
  by (auto simp: process_frame_def Let_def split: prod.splits sum.splits if_splits)

lemma process_frame_Inr:
  assumes "get_detections C frame = Inr detections" and "detections \<noteq> []"
    and "process_frame C tc s frame = Inr (s', calls)"
    and "tracked = fst (update_with_detections C (tracker s) detections)"
  shows "\<exists>merged out.
           calls = [Detect, TrackNonBall detections, DetectBall,
                    TrackBall (detect_ball C frame tracked)]
                   @ (if filter (\<lambda>d. class_id d = PLAYER_ID) tracked \<noteq> []
                      then [ClassifyPlayers
                              (map (\<lambda>d. (frame, xyxy d))
                                 (filter (\<lambda>d. class_id d = PLAYER_ID) tracked))]
                      else [])
                   @ (if filter (\<lambda>d. class_id d = GOALKEEPER_ID) tracked \<noteq> [] \<and>
                         filter (\<lambda>d. class_id d = PLAYER_ID) tracked \<noteq> []
                      then [ResolveGoalkeepers merged
                              (filter (\<lambda>d. class_id d = GOALKEEPER_ID) tracked)]
                      else [])
                   @ [Emit out] \<and>
           tracker s' = snd (update_with_detections C (tracker s) detections) \<and>
           ball_tracker s' = snd (update (ball_tracker s) (detect_ball C frame tracked)) \<and>
           frames_procesados (stats s') = frames_procesados (stats s) + 1 \<and>
           total_detecciones (stats s') = total_detecciones (stats s) + length detections \<and>
           detecciones_balon (stats s') =
             detecciones_balon (stats s) +
               (if fst (update (ball_tracker s) (detect_ball C frame tracked)) = None
                then 0 else 1)"
  using assms
  apply (simp add: process_frame_def Let_def split: prod.splits sum.splits if_splits)
   apply (auto dest!: classify_players_stats)
  done

lemmas frame_defs =
  process_frame_def detect_ball_def classify_players_def select_team_def
  assign_goalkeepers_def update_def reset_def BallTracker_def deque_append_def Let_def

text \<open>
  C2, as the claim states it, fails: a frame whose general detections are a ball and a
  player, with no ball model. The object tracker is called with both detections, the
  ball included, and the ball candidate handed to the ball tracker carries the track id 7
  the object tracker gave it.
\<close>

theorem ball_detection_is_tracked:
  "process_frame (example_collaborators [example_ball, example_player] None) () example_start 0
   = Inr (\<lparr>tracker = (),
           ball_tracker = \<lparr>buffer = [(45, 45)], maxlen = 30, last_position = Some (45, 45)\<rparr>,
           stats = \<lparr>frames_procesados = 1, jugadores_equipo_0 = 1, jugadores_equipo_1 = 0,
                    porteros_detectados = 0, arbitros_detectados = 0,
                    detecciones_balon = 1, total_detecciones = 2\<rparr>\<rparr>,
          [Detect,
           TrackNonBall
             [\<lparr>xyxy = (40, 40, 50, 50), class_id = 0, confidence = 0.9, tracker_id = None\<rparr>,
              \<lparr>xyxy = (0, 0, 20, 40), class_id = 2, confidence = 0.8, tracker_id = None\<rparr>],
           DetectBall,
           TrackBall
             [\<lparr>xyxy = (30, 30, 60, 60), class_id = 0, confidence = 0.9, tracker_id = Some 7\<rparr>],
           ClassifyPlayers [(0, (0, 0, 20, 40))],
           Emit (Annotated 0
                   [\<lparr>xyxy = (0, 0, 20, 40), class_id = 2, confidence = 0.8, tracker_id = Some 7\<rparr>]
                   [] [] (Some (45, 45)) [(45, 45)])])"
  by (simp add: frame_defs example_defs)

text \<open>
  C2, amended. On every frame with at least one detection the orchestrator hands all
  detections of the frame, ball-class ones included, to the object tracker, whose state
  it keeps; without a ball model, the ball candidates are the ball-class detections of
  the tracker's output, with the track ids the tracker gave them.
\<close>

theorem tracker_receives_all_detections:
  assumes "get_detections C frame = Inr detections" and "detections \<noteq> []"
    and "process_frame C tc s frame = Inr (s', calls)"
  shows "calls ! 1 = TrackNonBall detections \<and>
         tracker s' = snd (update_with_detections C (tracker s) detections) \<and>
         (ball_yolo C = None \<longrightarrow>
            (\<exists>ball_detections.
               calls ! 3 = TrackBall ball_detections \<and>
               map tracker_id ball_detections =
                 map tracker_id
                   (filter (\<lambda>d. class_id d = BALL_ID)
                      (fst (update_with_detections C (tracker s) detections)))))"
proof -
  obtain merged out where
    calls: "calls = [Detect, TrackNonBall detections, DetectBall,
                    TrackBall (detect_ball C frame (fst (update_with_detections C (tracker s) detections)))]
                   @ (if filter (\<lambda>d. class_id d = PLAYER_ID) (fst (update_with_detections C (tracker s) detections)) \<noteq> []
                      then [ClassifyPlayers
                              (map (\<lambda>d. (frame, xyxy d))
                                 (filter (\<lambda>d. class_id d = PLAYER_ID) (fst (update_with_detections C (tracker s) detections))))]
                      else [])
                   @ (if filter (\<lambda>d. class_id d = GOALKEEPER_ID) (fst (update_with_detections C (tracker s) detections)) \<noteq> [] \<and>
                         filter (\<lambda>d. class_id d = PLAYER_ID) (fst (update_with_detections C (tracker s) detections)) \<noteq> []
                      then [ResolveGoalkeepers merged
                              (filter (\<lambda>d. class_id d = GOALKEEPER_ID) (fst (update_with_detections C (tracker s) detections)))]
                      else [])
                   @ [Emit out]"
    and trk: "tracker s' = snd (update_with_detections C (tracker s) detections)"
    using process_frame_Inr [OF assms refl] by blast
  have c1: "calls ! 1 = TrackNonBall detections" unfolding calls by simp
  have c3: "calls ! 3 = TrackBall (detect_ball C frame (fst (update_with_detections C (tracker s) detections)))"
    unfolding calls by (simp add: numeral_3_eq_3)
  show ?thesis
    using c1 c3 trk by (auto simp: detect_ball_absent comp_def)
qed

text \<open>A frame with a ball and a referee, no ball model.\<close>

theorem tracker_receives_all_detections_witness:
  "process_frame (example_collaborators [example_ball, example_referee] None) () example_start 0
   = Inr (\<lparr>tracker = (),
           ball_tracker = \<lparr>buffer = [(45, 45)], maxlen = 30, last_position = Some (45, 45)\<rparr>,
           stats = \<lparr>frames_procesados = 1, jugadores_equipo_0 = 0, jugadores_equipo_1 = 0,
                    porteros_detectados = 0, arbitros_detectados = 1,
                    detecciones_balon = 1, total_detecciones = 2\<rparr>\<rparr>,
          [Detect,
           TrackNonBall [example_ball, example_referee],
           DetectBall,
           TrackBall [example_ball\<lparr>xyxy := (30, 30, 60, 60), tracker_id := Some 7\<rparr>],
           Emit (Annotated 0 [] [] [example_referee\<lparr>tracker_id := Some 7\<rparr>]
                   (Some (45, 45)) [(45, 45)])]) \<and>
   [Detect,
    TrackNonBall [example_ball, example_referee],
    DetectBall,
    TrackBall [example_ball\<lparr>xyxy := (30, 30, 60, 60), tracker_id := Some 7\<rparr>],
    Emit (Annotated (0::nat) [] [] [example_referee\<lparr>tracker_id := Some 7\<rparr>]
            (Some (45, 45)) [(45, 45)])] ! 1
   = TrackNonBall [example_ball, example_referee]"
proof -
  have g: "get_detections (example_collaborators [example_ball, example_referee] None) 0
             = Inr [example_ball, example_referee]"
    by (simp add: example_collaborators_def)
  have ne: "[example_ball, example_referee] \<noteq> []" by simp
  have eval: "process_frame (example_collaborators [example_ball, example_referee] None) ()
                example_start 0
   = Inr (\<lparr>tracker = (),
           ball_tracker = \<lparr>buffer = [(45, 45)], maxlen = 30, last_position = Some (45, 45)\<rparr>,
           stats = \<lparr>frames_procesados = 1, jugadores_equipo_0 = 0, jugadores_equipo_1 = 0,
                    porteros_detectados = 0, arbitros_detectados = 1,
                    detecciones_balon = 1, total_detecciones = 2\<rparr>\<rparr>,
          [Detect,
           TrackNonBall [example_ball, example_referee],
           DetectBall,
           TrackBall [example_ball\<lparr>xyxy := (30, 30, 60, 60), tracker_id := Some 7\<rparr>],
           Emit (Annotated 0 [] [] [example_referee\<lparr>tracker_id := Some 7\<rparr>]
                   (Some (45, 45)) [(45, 45)])])"
    by (simp add: frame_defs example_defs)
  from tracker_receives_all_detections [OF g ne eval] eval show ?thesis by blast
qed

text \<open>
  C3, as the claim states it, fails: a frame on which the general detector finds nothing,
  with a ball model that would find a ball. The frame is counted and written as read; the
  object tracker, the ball model, the ball tracker and the later stages are not called,
  and the ball counter stays 0.
\<close>

theorem empty_frame_skips_ball_stage:
  "process_frame (example_collaborators [] (Some (\<lambda>f. Inr [example_ball]))) () example_start 0
   = Inr (\<lparr>tracker = (), ball_tracker = \<lparr>buffer = [], maxlen = 30, last_position = None\<rparr>,
           stats = \<lparr>frames_procesados = 1, jugadores_equipo_0 = 0, jugadores_equipo_1 = 0,
                    porteros_detectados = 0, arbitros_detectados = 0,
                    detecciones_balon = 0, total_detecciones = 0\<rparr>\<rparr>,
          [Detect, Emit (Raw 0)])"
  by (simp add: frame_defs example_defs)

text \<open>
  C3, amended. A frame with no detection is counted and emitted as read, with nothing else
  changed, and the run goes on with the next frame. On a frame with at least one
  detection the stages run in order: detection, object tracking, ball detection, ball
  tracking, then classification when there is a player, goalkeeper resolution when there
  are a goalkeeper and a player, and emission of the annotated frame; the ball counter
  grows by one exactly when the ball tracker returns a position. Such a frame ends with
  an exception only when the classification stage raises it.
\<close>

theorem frame_stages:
  assumes "get_detections C frame = Inr detections"
    and "tracked = fst (update_with_detections C (tracker s) detections)"
    and "counted = s\<lparr>stats := (stats s)\<lparr>frames_procesados := frames_procesados (stats s) + 1\<rparr>\<rparr>"
  shows "(detections = [] \<longrightarrow>
            process_frame C tc s frame = Inr (counted, [Detect, Emit (Raw frame)]) \<and>
            process_frames C tc s (frame # rest) =
              (case process_frames C tc counted rest of
                 Inl e \<Rightarrow> Inl e
               | Inr (s'', calls_log) \<Rightarrow> Inr (s'', [Detect, Emit (Raw frame)] # calls_log))) \<and>
         (detections \<noteq> [] \<longrightarrow>
            (\<forall>e. process_frame C tc s frame = Inl e \<longrightarrow>
               (\<exists>st. classify_players C tc frame
                        (filter (\<lambda>d. class_id d = PLAYER_ID) tracked) st = Inl e)) \<and>
            (\<forall>s' calls. process_frame C tc s frame = Inr (s', calls) \<longrightarrow>
               (\<exists>merged out.
                  calls = [Detect, TrackNonBall detections, DetectBall,
                           TrackBall (detect_ball C frame tracked)]
                          @ (if filter (\<lambda>d. class_id d = PLAYER_ID) tracked \<noteq> []
                             then [ClassifyPlayers
                                     (map (\<lambda>d. (frame, xyxy d))
                                        (filter (\<lambda>d. class_id d = PLAYER_ID) tracked))]
                             else [])
                          @ (if filter (\<lambda>d. class_id d = GOALKEEPER_ID) tracked \<noteq> [] \<and>
                                filter (\<lambda>d. class_id d = PLAYER_ID) tracked \<noteq> []
                             then [ResolveGoalkeepers merged
                                     (filter (\<lambda>d. class_id d = GOALKEEPER_ID) tracked)]
                             else [])
                          @ [Emit out]) \<and>
               ball_tracker s' = snd (update (ball_tracker s) (detect_ball C frame tracked)) \<and>
               frames_procesados (stats s') = frames_procesados (stats s) + 1 \<and>
               detecciones_balon (stats s') =
                 detecciones_balon (stats s) +
                   (if fst (update (ball_tracker s) (detect_ball C frame tracked)) = None
                    then 0 else 1)))"
proof (intro conjI impI allI)
  assume "detections = []"
  then show "process_frame C tc s frame = Inr (counted, [Detect, Emit (Raw frame)])"
    using assms(1,3) by (simp add: process_frame_empty)
  then show "process_frames C tc s (frame # rest) =
              (case process_frames C tc counted rest of
                 Inl e \<Rightarrow> Inl e
               | Inr (s'', calls_log) \<Rightarrow> Inr (s'', [Detect, Emit (Raw frame)] # calls_log))"
    by simp
next
  fix e
  assume "detections \<noteq> []" and "process_frame C tc s frame = Inl e"
  then show "\<exists>st. classify_players C tc frame
                        (filter (\<lambda>d. class_id d = PLAYER_ID) tracked) st = Inl e"
    using process_frame_Inl [OF assms(1)] assms(2) by simp
next
  fix s' calls
  assume ne: "detections \<noteq> []" and r: "process_frame C tc s frame = Inr (s', calls)"
  note facts = process_frame_Inr [OF assms(1) ne r assms(2)]
  from facts show "\<exists>merged out.
                  calls = [Detect, TrackNonBall detections, DetectBall,
                           TrackBall (detect_ball C frame tracked)]
                          @ (if filter (\<lambda>d. class_id d = PLAYER_ID) tracked \<noteq> []
                             then [ClassifyPlayers
                                     (map (\<lambda>d. (frame, xyxy d))
                                        (filter (\<lambda>d. class_id d = PLAYER_ID) tracked))]
                             else [])
                          @ (if filter (\<lambda>d. class_id d = GOALKEEPER_ID) tracked \<noteq> [] \<and>
                                filter (\<lambda>d. class_id d = PLAYER_ID) tracked \<noteq> []
                             then [ResolveGoalkeepers merged
                                     (filter (\<lambda>d. class_id d = GOALKEEPER_ID) tracked)]
                             else [])
                          @ [Emit out]"
    by blast
  from facts show "ball_tracker s' = snd (update (ball_tracker s) (detect_ball C frame tracked))"
    by blast
  from facts show "frames_procesados (stats s') = frames_procesados (stats s) + 1"
    by blast
  from facts show "detecciones_balon (stats s') =
                 detecciones_balon (stats s) +
                   (if fst (update (ball_tracker s) (detect_ball C frame tracked)) = None
                    then 0 else 1)"
    by blast
qed

text \<open>
  Two frames without detections, processed one after the other; a frame with a referee
  and a ball model that finds a ball.
\<close>

theorem frame_stages_witness:
  "process_frames (example_collaborators [] None) () example_start [0, 1]
     = Inr (\<lparr>tracker = (), ball_tracker = \<lparr>buffer = [], maxlen = 30, last_position = None\<rparr>,
             stats = \<lparr>frames_procesados = 2, jugadores_equipo_0 = 0, jugadores_equipo_1 = 0,
                      porteros_detectados = 0, arbitros_detectados = 0,
                      detecciones_balon = 0, total_detecciones = 0\<rparr>\<rparr>,
            [[Detect, Emit (Raw 0)], [Detect, Emit (Raw 1)]]) \<and>
   process_frame (example_collaborators [example_referee]
                    (Some (\<lambda>f. Inr [example_ball]))) () example_start 0
     = Inr (\<lparr>tracker = (),
             ball_tracker = \<lparr>buffer = [(45, 45)], maxlen = 30, last_position = Some (45, 45)\<rparr>,
             stats = \<lparr>frames_procesados = 1, jugadores_equipo_0 = 0, jugadores_equipo_1 = 0,
                      porteros_detectados = 0, arbitros_detectados = 1,
                      detecciones_balon = 1, total_detecciones = 1\<rparr>\<rparr>,
            [Detect,
             TrackNonBall [example_referee],
             DetectBall,
             TrackBall [example_ball],
             Emit (Annotated 0 [] [] [example_referee\<lparr>tracker_id := Some 7\<rparr>]
                     (Some (45, 45)) [(45, 45)])])"
proof -
  have g1: "get_detections (example_collaborators [] None) 0 = Inr []"
    by (simp add: example_collaborators_def)
  have g2: "get_detections (example_collaborators [example_referee]
                              (Some (\<lambda>f. Inr [example_ball]))) 0 = Inr [example_referee]"
    by (simp add: example_collaborators_def)
  have rest: "process_frames (example_collaborators [] None) ()
                (example_start\<lparr>stats := (stats example_start)
                   \<lparr>frames_procesados := frames_procesados (stats example_start) + 1\<rparr>\<rparr>) [1]
              = Inr (\<lparr>tracker = (),
                      ball_tracker = \<lparr>buffer = [], maxlen = 30, last_position = None\<rparr>,
                      stats = \<lparr>frames_procesados = 2, jugadores_equipo_0 = 0,
                               jugadores_equipo_1 = 0, porteros_detectados = 0,
                               arbitros_detectados = 0, detecciones_balon = 0,
                               total_detecciones = 0\<rparr>\<rparr>,
                     [[Detect, Emit (Raw 1)]])"
    by (simp add: frame_defs example_defs)
  have eval: "process_frame (example_collaborators [example_referee]
                    (Some (\<lambda>f. Inr [example_ball]))) () example_start 0
     = Inr (\<lparr>tracker = (),
             ball_tracker = \<lparr>buffer = [(45, 45)], maxlen = 30, last_position = Some (45, 45)\<rparr>,
             stats = \<lparr>frames_procesados = 1, jugadores_equipo_0 = 0, jugadores_equipo_1 = 0,
                      porteros_detectados = 0, arbitros_detectados = 1,
                      detecciones_balon = 1, total_detecciones = 1\<rparr>\<rparr>,
            [Detect,
             TrackNonBall [example_referee],
             DetectBall,
             TrackBall [example_ball],
             Emit (Annotated 0 [] [] [example_referee\<lparr>tracker_id := Some 7\<rparr>]
                     (Some (45, 45)) [(45, 45)])])"
    by (simp add: frame_defs example_defs)
  note t1 = frame_stages [OF g1 refl refl, where s = example_start and tc = "()" and rest = "[1]"]
  note t2 = frame_stages [OF g2 refl refl, where s = example_start and tc = "()" and rest = "[]"]
  from t1 rest have a: "process_frames (example_collaborators [] None) () example_start [0, 1]
     = Inr (\<lparr>tracker = (), ball_tracker = \<lparr>buffer = [], maxlen = 30, last_position = None\<rparr>,
             stats = \<lparr>frames_procesados = 2, jugadores_equipo_0 = 0, jugadores_equipo_1 = 0,
                      porteros_detectados = 0, arbitros_detectados = 0,
                      detecciones_balon = 0, total_detecciones = 0\<rparr>\<rparr>,
            [[Detect, Emit (Raw 0)], [Detect, Emit (Raw 1)]])"
    by simp
  have ne: "[example_referee] \<noteq> []" by simp
  from t2 ne eval have b:
    "detecciones_balon
       (stats \<lparr>tracker = (),
               ball_tracker = \<lparr>buffer = [(45, 45)], maxlen = 30,
                               last_position = Some (45, 45)\<rparr>,
               stats = \<lparr>frames_procesados = 1, jugadores_equipo_0 = 0, jugadores_equipo_1 = 0,
                        porteros_detectados = 0, arbitros_detectados = 1,
                        detecciones_balon = 1, total_detecciones = 1\<rparr>\<rparr>)
     = detecciones_balon (stats example_start) +
         (if fst (update (ball_tracker example_start)
                    (detect_ball
                       (example_collaborators [example_referee] (Some (\<lambda>f. Inr [example_ball])))
                       0
                       (fst (update_with_detections
                               (example_collaborators [example_referee]
                                  (Some (\<lambda>f. Inr [example_ball])))
                               (tracker example_start) [example_referee])))) = None
          then 0 else 1)"
    by blast
  show ?thesis using b by (intro conjI a eval)
qed

text \<open>
  C9, as the claim states it, fails. The general detector finds a ball, the ball model
  raises, and the object tracker returns no detection (as a tracker does for detections
  it has not confirmed). The fallback reads the ball class from the tracker's output: no
  candidate reaches the ball tracker and the ball counter stays 0, though the general
  detector's output for the frame holds a ball-class detection.
\<close>

theorem fallback_misses_dropped_ball:
  "get_detections
     ((example_collaborators [example_ball] (Some (\<lambda>f. Inl (Exception ''RuntimeError''))))
        \<lparr>update_with_detections := (\<lambda>ts detections. ([], ts))\<rparr>) 0
   = Inr [example_ball] \<and>
   class_id example_ball = BALL_ID \<and>
   process_frame
     ((example_collaborators [example_ball] (Some (\<lambda>f. Inl (Exception ''RuntimeError''))))
        \<lparr>update_with_detections := (\<lambda>ts detections. ([], ts))\<rparr>)
     () example_start 0
   = Inr (\<lparr>tracker = (), ball_tracker = \<lparr>buffer = [], maxlen = 30, last_position = None\<rparr>,
           stats = \<lparr>frames_procesados = 1, jugadores_equipo_0 = 0, jugadores_equipo_1 = 0,
                    porteros_detectados = 0, arbitros_detectados = 0,
                    detecciones_balon = 0, total_detecciones = 1\<rparr>\<rparr>,
          [Detect, TrackNonBall [example_ball], DetectBall, TrackBall [],
           Emit (Annotated 0 [] [] [] None [])])"
  by (simp add: frame_defs example_defs)

text \<open>
  C9, amended. When the ball model is absent, or raises on the frame, the frame does not
  end with that failure: it can end with an exception only when the classification stage
  raises. The candidates are the ball-class detections among the frame's detections as
  the object tracker returns them (none on a frame without detections), with their boxes
  padded by 10 pixels when the model is absent; the ball tracker is updated with them,
  the ball counter follows that update, and the run goes on with the next frame.
\<close>

theorem ball_detector_fallback:
  assumes "ball_yolo C = None \<or> (\<exists>p e. ball_yolo C = Some p \<and> p frame = Inl e)"
    and "get_detections C frame = Inr detections"
    and "tracked = (if detections = [] then []
                    else fst (update_with_detections C (tracker s) detections))"
    and "fallback = filter (\<lambda>d. class_id d = BALL_ID) tracked"
    and "candidates = (if ball_yolo C = None
                       then map (\<lambda>d. d\<lparr>xyxy := pad_boxes 10 (xyxy d)\<rparr>) fallback
                       else fallback)"
  shows "(\<forall>e. process_frame C tc s frame = Inl e \<longrightarrow>
            (\<exists>st. classify_players C tc frame
                     (filter (\<lambda>d. class_id d = PLAYER_ID) tracked) st = Inl e)) \<and>
         (\<forall>s' calls. process_frame C tc s frame = Inr (s', calls) \<longrightarrow>
            ball_tracker s' = snd (update (ball_tracker s) candidates) \<and>
            detecciones_balon (stats s') =
              detecciones_balon (stats s) +
                (if fst (update (ball_tracker s) candidates) = None then 0 else 1) \<and>
            (detections \<noteq> [] \<longrightarrow> TrackBall candidates \<in> set calls) \<and>
            process_frames C tc s (frame # rest) =
              (case process_frames C tc s' rest of
                 Inl e \<Rightarrow> Inl e
               | Inr (s'', calls_log) \<Rightarrow> Inr (s'', calls # calls_log)))"
proof (cases "detections = []")
  case True
  then have cand: "candidates = []" using assms(3,4,5) by simp
  have "process_frame C tc s frame =
          Inr (s\<lparr>stats := (stats s)\<lparr>frames_procesados := frames_procesados (stats s) + 1\<rparr>\<rparr>,
               [Detect, Emit (Raw frame)])"
    using True assms(2) by (simp add: process_frame_empty)
  then show ?thesis using True cand by (auto simp: update_empty)
next
  case False
  then have tr: "tracked = fst (update_with_detections C (tracker s) detections)"
    using assms(3) by simp
  have db: "detect_ball C frame tracked = candidates"
    using assms(1,4,5) by (auto simp: detect_ball_absent detect_ball_raises)
  show ?thesis
  proof (intro conjI impI allI)
    fix e assume "process_frame C tc s frame = Inl e"
    then show "\<exists>st. classify_players C tc frame
                     (filter (\<lambda>d. class_id d = PLAYER_ID) tracked) st = Inl e"
      using process_frame_Inl [OF assms(2) False] tr by simp
  next
    fix s' calls
    assume r: "process_frame C tc s frame = Inr (s', calls)"
    note facts = process_frame_Inr [OF assms(2) False r tr]
    from facts show "ball_tracker s' = snd (update (ball_tracker s) candidates)"
      unfolding db by blast
    from facts show "detecciones_balon (stats s') =
              detecciones_balon (stats s) +
                (if fst (update (ball_tracker s) candidates) = None then 0 else 1)"
      unfolding db by blast
    from facts show "TrackBall candidates \<in> set calls"
      unfolding db by auto
    from r show "process_frames C tc s (frame # rest) =
              (case process_frames C tc s' rest of
                 Inl e \<Rightarrow> Inl e
               | Inr (s'', calls_log) \<Rightarrow> Inr (s'', calls # calls_log))"
      by simp
  qed
qed

text \<open>
  A frame with a ball and a referee and a ball model that raises, followed by a frame of
  the same kind: the run goes through both.
\<close>

theorem ball_detector_fallback_witness:
  "process_frame (example_collaborators [example_ball, example_referee]
                    (Some (\<lambda>f. Inl (Exception ''RuntimeError'')))) () example_start 0
   = Inr (\<lparr>tracker = (),
           ball_tracker = \<lparr>buffer = [(45, 45)], maxlen = 30, last_position = Some (45, 45)\<rparr>,
           stats = \<lparr>frames_procesados = 1, jugadores_equipo_0 = 0, jugadores_equipo_1 = 0,
                    porteros_detectados = 0, arbitros_detectados = 1,
                    detecciones_balon = 1, total_detecciones = 2\<rparr>\<rparr>,
          [Detect,
           TrackNonBall [example_ball, example_referee],
           DetectBall,
           TrackBall [example_ball\<lparr>tracker_id := Some 7\<rparr>],
           Emit (Annotated 0 [] [] [example_referee\<lparr>tracker_id := Some 7\<rparr>]
                   (Some (45, 45)) [(45, 45)])]) \<and>
   snd (update (ball_tracker example_start) [example_ball\<lparr>tracker_id := Some 7\<rparr>])
   = \<lparr>buffer = [(45, 45)], maxlen = 30, last_position = Some (45, 45)\<rparr> \<and>
   map_sum id (\<lambda>r. stats (fst r))
     (process_frames (example_collaborators [example_ball, example_referee]
                        (Some (\<lambda>f. Inl (Exception ''RuntimeError'')))) () example_start [0, 1])
   = Inr \<lparr>frames_procesados = 2, jugadores_equipo_0 = 0, jugadores_equipo_1 = 0,
          porteros_detectados = 0, arbitros_detectados = 2,
          detecciones_balon = 2, total_detecciones = 4\<rparr>"
proof -
  let ?C = "example_collaborators [example_ball, example_referee]
              (Some (\<lambda>f. Inl (Exception ''RuntimeError'')))"
  let ?s1 = "\<lparr>tracker = (),
           ball_tracker = \<lparr>buffer = [(45, 45)], maxlen = 30, last_position = Some (45, 45)\<rparr>,
           stats = \<lparr>frames_procesados = 1, jugadores_equipo_0 = 0, jugadores_equipo_1 = 0,
                    porteros_detectados = 0, arbitros_detectados = 1,
                    detecciones_balon = 1, total_detecciones = 2\<rparr>\<rparr>"
  have h: "ball_yolo ?C = None \<or> (\<exists>p e. ball_yolo ?C = Some p \<and> p 0 = Inl e)"
    by (simp add: example_collaborators_def)
  have g: "get_detections ?C 0 = Inr [example_ball, example_referee]"
    by (simp add: example_collaborators_def)
  have fb: "[example_ball\<lparr>tracker_id := Some 7\<rparr>] =
              filter (\<lambda>d. class_id d = BALL_ID)
                (if [example_ball, example_referee] = [] then []
                 else fst (update_with_detections ?C (tracker example_start)
                             [example_ball, example_referee]))"
    by (simp add: example_defs)
  have cand: "[example_ball\<lparr>tracker_id := Some 7\<rparr>] =
                (if ball_yolo ?C = None
                 then map (\<lambda>d. d\<lparr>xyxy := pad_boxes 10 (xyxy d)\<rparr>)
                        [example_ball\<lparr>tracker_id := Some 7\<rparr>]
                 else [example_ball\<lparr>tracker_id := Some 7\<rparr>])"
    by (simp add: example_collaborators_def)
  have eval: "process_frame ?C () example_start 0
   = Inr (?s1,
          [Detect,
           TrackNonBall [example_ball, example_referee],
           DetectBall,
           TrackBall [example_ball\<lparr>tracker_id := Some 7\<rparr>],
           Emit (Annotated 0 [] [] [example_referee\<lparr>tracker_id := Some 7\<rparr>]
                   (Some (45, 45)) [(45, 45)])])"
    by (simp add: frame_defs example_defs)
  have next_frame: "map_sum id (\<lambda>r. stats (fst r)) (process_frames ?C () ?s1 [1])
   = Inr \<lparr>frames_procesados = 2, jugadores_equipo_0 = 0, jugadores_equipo_1 = 0,
          porteros_detectados = 0, arbitros_detectados = 2,
          detecciones_balon = 2, total_detecciones = 4\<rparr>"
    by (simp add: frame_defs example_defs split: sum.splits)
  note t = ball_detector_fallback [OF h g refl fb cand, where tc = "()" and rest = "[1]"]
  from t eval have run: "process_frames ?C () example_start [0, 1] =
      (case process_frames ?C () ?s1 [1] of
         Inl e \<Rightarrow> Inl e
       | Inr (s'', calls_log) \<Rightarrow>
           Inr (s'', [Detect,
           TrackNonBall [example_ball, example_referee],
           DetectBall,
           TrackBall [example_ball\<lparr>tracker_id := Some 7\<rparr>],
           Emit (Annotated 0 [] [] [example_referee\<lparr>tracker_id := Some 7\<rparr>]
                   (Some (45, 45)) [(45, 45)])] # calls_log))"
    by blast
  from t eval have bt: "ball_tracker ?s1
      = snd (update (ball_tracker example_start) [example_ball\<lparr>tracker_id := Some 7\<rparr>])"
    by blast
  have third: "map_sum id (\<lambda>r. stats (fst r)) (process_frames ?C () example_start [0, 1])
   = Inr \<lparr>frames_procesados = 2, jugadores_equipo_0 = 0, jugadores_equipo_1 = 0,
          porteros_detectados = 0, arbitros_detectados = 2,
          detecciones_balon = 2, total_detecciones = 4\<rparr>"
    using next_frame unfolding run by (auto split: sum.splits)
  show ?thesis using eval bt third by simp
qed

text \<open>The frames of a run, and the two early ends of the analysis.\<close>

lemma process_video_outbound:
  "n \<noteq> 0 \<Longrightarrow> length video < start_frame + n \<Longrightarrow>
   process_video C tc video start_frame (Some n)
     = Inl (Exception ''Requested frames are outbound'')"
  by (simp add: process_video_def video_frames_def)

lemma process_video_frames:
  "n \<noteq> 0 \<Longrightarrow> start_frame + n \<le> length video \<Longrightarrow>
   process_video C tc video start_frame (Some n) =
     (case process_frames C tc
             \<lparr>tracker = new_tracker C, ball_tracker = reset (BallTracker 30),
              stats = \<lparr>frames_procesados = 0, jugadores_equipo_0 = 0, jugadores_equipo_1 = 0,
                       porteros_detectados = 0, arbitros_detectados = 0,
                       detecciones_balon = 0, total_detecciones = 0\<rparr>\<rparr>
             (take n (drop start_frame video)) of
        Inl e \<Rightarrow> Inl e
      | Inr (s', calls_log) \<Rightarrow> Inr (stats s', calls_log))"
  by (simp add: process_video_def video_frames_def drop_take)

lemma analysis_start_beyond:
  "length video \<le> start_frame \<Longrightarrow> analysis C video start_frame max_frames = Inr StartBeyondVideo"
  by (simp add: analysis_def)

lemma analysis_processing_failed:
  assumes "start_frame < length video"
    and "create_team_classifier C video 30 500 = Inr tc"
    and "process_video C tc video start_frame max_frames = Inl e"
  shows "analysis C video start_frame max_frames = Inr (ProcessingFailed e)"
  using assms by (simp add: analysis_def)

text \<open>
  The resolution inside a frame: the only player is labeled 0 by the classifier, and the
  goalkeeper, who stands in the same box, is drawn with team 1.
\<close>

lemma example_frame_goalkeeper:
  "process_frame (example_collaborators [example_player, example_goalkeeper] None) ()
     example_start 0
   = Inr (\<lparr>tracker = (),
           ball_tracker = \<lparr>buffer = [], maxlen = 30, last_position = None\<rparr>,
           stats = \<lparr>frames_procesados = 1, jugadores_equipo_0 = 1, jugadores_equipo_1 = 0,
                    porteros_detectados = 1, arbitros_detectados = 0,
                    detecciones_balon = 0, total_detecciones = 2\<rparr>\<rparr>,
          [Detect,
           TrackNonBall [example_player, example_goalkeeper],
           DetectBall,
           TrackBall [],
           ClassifyPlayers [(0, (0, 0, 20, 40))],
           ResolveGoalkeepers
             [example_player\<lparr>class_id := 0, tracker_id := Some 7\<rparr>]
             [example_goalkeeper\<lparr>tracker_id := Some 7\<rparr>],
           Emit (Annotated 0
                   [example_player\<lparr>class_id := 0, tracker_id := Some 7\<rparr>]
                   [example_goalkeeper\<lparr>tracker_id := Some 7\<rparr>]
                   [] None [])])"
  by (simp add: frame_defs example_defs resolve_goalkeepers_team_id_def team_centroid_def
      mean_axis0_def)

end
